theory Spec2Isabelle
  imports Complex_Main
begin

section \<open>The photon propagation model of \<^verbatim>\<open>model.py\<close>\<close>

text \<open>
  The class \<^verbatim>\<open>Model\<close> builds a TensorFlow graph over a batch of photons. The
  embedding below follows the graph operation by operation. Tensors of shape \<open>(N)\<close> are
  lists of reals, tensors of shape \<open>(N, 3)\<close> are lists of triples, and the arithmetic on
  tensors is exact real arithmetic, without the rounding of the floating-point types. Two
  effects of floating point are part of the model: the quotient of the two sizes in
  \<^verbatim>\<open>tf_init_cascades\<close> is rounded as a double, and the rows of NaN that the scattering can
  produce have an embedding of their own (subsection \<open>Rows that are not numbers\<close>). The
  outcome of every random operation (the draws of the uniform distribution, the samplers
  of the ice) is a parameter.

  TensorFlow rejects elementwise operations on tensors of different batch sizes. The
  list operations below truncate to the shortest operand instead, so every theorem about
  the loop body assumes that the loop variables and the tensors returned by the ice and by
  the detector all have the same length.
\<close>

subsection \<open>Vectors\<close>

type_synonym vec3 = "real \<times> real \<times> real"

fun add3 :: "vec3 \<Rightarrow> vec3 \<Rightarrow> vec3" where
  "add3 (a1, a2, a3) (b1, b2, b3) = (a1 + b1, a2 + b2, a3 + b3)"

fun sub3 :: "vec3 \<Rightarrow> vec3 \<Rightarrow> vec3" where
  "sub3 (a1, a2, a3) (b1, b2, b3) = (a1 - b1, a2 - b2, a3 - b3)"

fun scale3 :: "real \<Rightarrow> vec3 \<Rightarrow> vec3" where
  "scale3 c (a1, a2, a3) = (c * a1, c * a2, c * a3)"

fun div3 :: "vec3 \<Rightarrow> real \<Rightarrow> vec3" where
  "div3 (a1, a2, a3) c = (a1 / c, a2 / c, a3 / c)"

text \<open>\<^verbatim>\<open>tf.cross(a, b)\<close> on one row.\<close>

fun cross3 :: "vec3 \<Rightarrow> vec3 \<Rightarrow> vec3" where
  "cross3 (a1, a2, a3) (b1, b2, b3) =
     (a2 * b3 - a3 * b2, a3 * b1 - a1 * b3, a1 * b2 - a2 * b1)"

text \<open>\<^verbatim>\<open>tf.norm(a, axis=-1)\<close> and \<^verbatim>\<open>np.linalg.norm\<close> on one row.\<close>

fun norm3 :: "vec3 \<Rightarrow> real" where
  "norm3 (a1, a2, a3) = sqrt (a1 * a1 + a2 * a2 + a3 * a3)"

text \<open>The column \<^verbatim>\<open>r[:, 2]\<close> of one row.\<close>

fun z_of :: "vec3 \<Rightarrow> real" where
  "z_of (a1, a2, a3) = a3"

subsection \<open>Elementwise tensor operations\<close>

text \<open>\<^verbatim>\<open>tf.where(cond, x, y)\<close>: row \<open>i\<close> of the result is row \<open>i\<close> of \<open>x\<close> where
  \<open>cond\<close> holds and row \<open>i\<close> of \<open>y\<close> elsewhere.\<close>

definition tf_where :: "bool list \<Rightarrow> 'a list \<Rightarrow> 'a list \<Rightarrow> 'a list" where
  "tf_where c x y = map (\<lambda>(b, p, q). if b then p else q) (zip c (zip x y))"

definition zeros_like :: "'a list \<Rightarrow> real list" where
  "zeros_like x = map (\<lambda>_. 0) x"

text \<open>\<^verbatim>\<open>tf.zeros([n])\<close>.\<close>

definition zeros :: "nat \<Rightarrow> real list" where
  "zeros n = replicate n 0"

text \<open>\<^verbatim>\<open>tf.tile(x, [k, 1])\<close>: the rows of \<open>x\<close>, repeated \<open>k\<close> times as a whole.\<close>

definition tile :: "'a list \<Rightarrow> nat \<Rightarrow> 'a list" where
  "tile x k = concat (replicate k x)"

text \<open>\<^verbatim>\<open>self._uni_pdf.sample(n)\<close>: \<open>n\<close> draws; the function \<open>u\<close> gives the value drawn
  for each row, a number of the interval from 0 to 1.\<close>

definition sample :: "(nat \<Rightarrow> real) \<Rightarrow> nat \<Rightarrow> real list" where
  "sample u n = map u [0..<n]"

text \<open>The rows \<^verbatim>\<open>tf.transpose([sinTs*tf.cos(phis), sinTs*tf.sin(phis), tf.cos(thetas)])\<close>
  with \<^verbatim>\<open>sinTs = tf.sin(thetas)\<close>.\<close>

definition directions :: "real list \<Rightarrow> real list \<Rightarrow> vec3 list" where
  "directions thetas phis =
     map2 (\<lambda>th ph. (sin th * cos ph, sin th * sin ph, cos th)) thetas phis"

subsection \<open>Settings and initialisation\<close>

text \<open>The module \<^verbatim>\<open>settings\<close> is not part of the sources; the three values the model reads
  are fields of a record. \<^verbatim>\<open>CUTOFF_RADIUS\<close> is tested for truth by \<^verbatim>\<open>if\<close>, so it may be
  \<^verbatim>\<open>None\<close>, and both \<^verbatim>\<open>None\<close> and \<^verbatim>\<open>0\<close> switch the cutoff off.\<close>

record settings =
  BATCH_SIZE :: nat
  CASCADES_PER_STEP :: nat
  CUTOFF_RADIUS :: "real option"

datatype error = ZeroDivisionError | OverflowError

text \<open>Rounding to the nearest integer, ties to the even one.\<close>

definition round_half_even :: "real \<Rightarrow> int" where
  "round_half_even x =
     (let f = \<lfloor>x\<rfloor>; r = x - of_int f
      in if r < 1 / 2 then f else if 1 / 2 < r then f + 1 else if even f then f else f + 1)"

text \<open>The double-precision number nearest to a positive real \<open>x\<close>: 53 significant bits,
  ties to even. The exponent range is not modelled here: numbers below the normal range
  are below 1, where only the integer part matters to the caller, and the caller tests
  for overflow.\<close>

definition float64 :: "real \<Rightarrow> real" where
  "float64 x =
     (let e = \<lfloor>log 2 x\<rfloor>; ulp = 2 powr (of_int e - 52)
      in of_int (round_half_even (x / ulp)) * ulp)"

text \<open>\<^verbatim>\<open>int(b/c)\<close> for integers \<open>b\<close> and \<open>c\<close> that are not negative. The module imports
  true division, so \<^verbatim>\<open>b/c\<close> is the double nearest to the exact quotient; it raises for a
  zero divisor and for a quotient beyond the doubles. \<^verbatim>\<open>int\<close> truncates.\<close>

definition int_true_div :: "nat \<Rightarrow> nat \<Rightarrow> error + nat" where
  "int_true_div b c =
     (if c = 0 then Inl ZeroDivisionError
      else if b = 0 then Inr 0
      else let x = float64 (real b / real c)
           in if 2 ^ 1024 \<le> x then Inl OverflowError else Inr (nat \<lfloor>x\<rfloor>))"

text \<open>\<^verbatim>\<open>tf_init_cascades\<close>: the origins are tiled \<^verbatim>\<open>int(BATCH_SIZE/CASCADES_PER_STEP)\<close> times.
  The result is the pair \<^verbatim>\<open>(self._r0, self._v0)\<close>.\<close>

definition tf_init_cascades ::
  "settings \<Rightarrow> vec3 list \<Rightarrow> (nat \<Rightarrow> real) \<Rightarrow> (nat \<Rightarrow> real) \<Rightarrow> error + (vec3 list \<times> vec3 list)" where
  "tf_init_cascades cfg r_cascades u_theta u_phi =
     (case int_true_div (BATCH_SIZE cfg) (CASCADES_PER_STEP cfg) of
        Inl e \<Rightarrow> Inl e
      | Inr k \<Rightarrow>
          let r0 = tile r_cascades k;
              thetas = map (\<lambda>x. x * pi) (sample u_theta (BATCH_SIZE cfg));
              phis = map (\<lambda>x. x * 2 * pi) (sample u_phi (BATCH_SIZE cfg))
          in Inr (r0, directions thetas phis))"

subsection \<open>Scattering\<close>

text \<open>\<^verbatim>\<open>tf_sample_normal_vectors\<close>. The parameters \<open>u_theta\<close> and \<open>u_phi\<close> are the two
  uniform draws. The last line divides every row by its norm; for a row of norm zero
  TensorFlow yields NaN, where the division of the reals yields zero. This definition
  and \<open>tf_scatter\<close> below are the program on the rows whose cross product is not the zero
  vector and whose draw of the scattering variable lies between 0 and 1 (lemma
  \<open>nth_tf_scatter_nan_defined\<close>); a statement that depends on a scattered direction
  assumes so, and the rows of NaN are the subject of \<open>tf_sample_normal_vectors_nan\<close> and
  \<open>tf_scatter_nan\<close>.\<close>

definition tf_sample_normal_vectors ::
  "(nat \<Rightarrow> real) \<Rightarrow> (nat \<Rightarrow> real) \<Rightarrow> vec3 list \<Rightarrow> vec3 list" where
  "tf_sample_normal_vectors u_theta u_phi v =
     (let thetas = map (\<lambda>x. x * pi) (sample u_theta (length v));
          phis = map (\<lambda>x. x * 2 * pi) (sample u_phi (length v));
          n = map2 cross3 (directions thetas phis) v
      in map (\<lambda>a. div3 a (norm3 a)) n)"

text \<open>Modelled from the spec: the function \<^verbatim>\<open>rotate_vector_by_quaternion\<close> of the library
  \<^verbatim>\<open>tfquaternion\<close> is not part of the sources. For the quaternion \<open>(w, u)\<close> the
  specification gives the rotated vector as \<open>v + 2w(u \<times> v) + 2(u \<times> (u \<times> v))\<close>.\<close>

fun rotate_vector_by_quaternion :: "real \<times> vec3 \<Rightarrow> vec3 \<Rightarrow> vec3" where
  "rotate_vector_by_quaternion (w, u) v =
     add3 (add3 v (scale3 (2 * w) (cross3 u v))) (scale3 2 (cross3 u (cross3 u v)))"

text \<open>\<^verbatim>\<open>tf_scatter\<close>. The power \<^verbatim>\<open>**(1/19)\<close> has a real exponent (the module imports true
  division), so it is \<open>powr\<close>. A quaternion row \<^verbatim>\<open>[cosT2s, ns[0], ns[1], ns[2]]\<close> is the
  pair of its scalar part and its vector part.\<close>

definition tf_scatter ::
  "(nat \<Rightarrow> real) \<Rightarrow> (nat \<Rightarrow> real) \<Rightarrow> (nat \<Rightarrow> real) \<Rightarrow> vec3 list \<Rightarrow> vec3 list" where
  "tf_scatter u_cos u_theta u_phi v =
     (let cosTs = map (\<lambda>x. 2 * x powr (1 / 19) - 1) (sample u_cos (length v));
          cosT2s = map (\<lambda>c. sqrt ((c + 1) / 2)) cosTs;
          sinT2s = map (\<lambda>c. sqrt ((1 - c) / 2)) cosTs;
          ns = map2 (\<lambda>n s. scale3 s n) (tf_sample_normal_vectors u_theta u_phi v) sinT2s;
          q = zip cosT2s ns
      in map2 rotate_vector_by_quaternion q v)"

subsection \<open>The loop body\<close>

text \<open>The loop variables \<^verbatim>\<open>[d_abs, r, v, t, t_layer_0, t_layer_1]\<close> of \<^verbatim>\<open>tf.while_loop\<close>.
  The fields \<open>pos_r\<close>, \<open>dir_v\<close> and \<open>time_t\<close> are the variables \<^verbatim>\<open>r\<close>, \<^verbatim>\<open>v\<close> and \<^verbatim>\<open>t\<close>.\<close>

record loop_vars =
  d_abs :: "real list"
  pos_r :: "vec3 list"
  dir_v :: "vec3 list"
  time_t :: "real list"
  t_layer_0 :: "real list"
  t_layer_1 :: "real list"

text \<open>The extents \<^verbatim>\<open>_l_x\<close>, \<^verbatim>\<open>_l_y\<close>, \<^verbatim>\<open>_l_z\<close> of the detector.\<close>

record detector =
  l_x :: real
  l_y :: real
  l_z :: real

text \<open>What one iteration obtains from outside: the answers of \<^verbatim>\<open>self._ice.tf_sample_scatter\<close>
  and of \<^verbatim>\<open>self._detector.tf_check_for_hits\<close> (neither class is part of the sources, and
  both may return anything), and the three uniform draws of \<^verbatim>\<open>tf_scatter\<close>.\<close>

record step_env =
  tf_sample_scatter :: "vec3 list \<Rightarrow> real list"
  tf_check_for_hits :: "vec3 list \<Rightarrow> real list \<Rightarrow> vec3 list \<Rightarrow> real list"
  u_cos :: "nat \<Rightarrow> real"
  u_theta :: "nat \<Rightarrow> real"
  u_phi :: "nat \<Rightarrow> real"

text \<open>Line 118: \<^verbatim>\<open>d_abs = tf.where(d_abs > 0., d_abs, tf.zeros_like(d_abs))\<close>.\<close>

definition clamp_d_abs :: "real list \<Rightarrow> real list" where
  "clamp_d_abs da = tf_where (map (\<lambda>x. x > 0) da) da (zeros_like da)"

text \<open>Line 122: \<^verbatim>\<open>d = tf.where(d_scat < d_abs, d_scat, d_abs)\<close>.\<close>

definition step_d :: "real list \<Rightarrow> real list \<Rightarrow> real list" where
  "step_d d_scat da = tf_where (map2 (<) d_scat da) d_scat da"

text \<open>Line 126: \<^verbatim>\<open>d_abs = tf.where(rel_d_til_hit < 1., tf.zeros_like(d), d_abs - d)\<close>.\<close>

definition hit_d_abs :: "real list \<Rightarrow> real list \<Rightarrow> real list \<Rightarrow> real list" where
  "hit_d_abs rel_d_til_hit d da =
     tf_where (map (\<lambda>x. x < 1) rel_d_til_hit) (zeros_like d) (map2 (-) da d)"

text \<open>Line 129: \<^verbatim>\<open>r += tf.expand_dims(d*rel_d_til_hit, axis=-1)*v\<close>.\<close>

definition propagate_r :: "vec3 list \<Rightarrow> real list \<Rightarrow> real list \<Rightarrow> vec3 list \<Rightarrow> vec3 list" where
  "propagate_r rs d rel_d_til_hit vs =
     map2 add3 rs (map2 scale3 (map2 (*) d rel_d_til_hit) vs)"

text \<open>Lines 142 to 150: the cutoff, applied when \<^verbatim>\<open>settings.CUTOFF_RADIUS\<close> is true.\<close>

definition cutoff_d_abs :: "settings \<Rightarrow> detector \<Rightarrow> vec3 list \<Rightarrow> real list \<Rightarrow> real list" where
  "cutoff_d_abs cfg det rs da =
     (case CUTOFF_RADIUS cfg of
        None \<Rightarrow> da
      | Some c \<Rightarrow>
          if c = 0 then da
          else tf_where
                 (map (\<lambda>p. norm3 (sub3 p (l_x det / 2, l_y det / 2, l_z det / 2))
                            < c * norm3 (l_x det, l_y det, l_z det) / 2) rs)
                 da (zeros_like da))"

text \<open>The function \<^verbatim>\<open>body\<close> of \<^verbatim>\<open>tf_propagate\<close>.\<close>

definition body :: "settings \<Rightarrow> detector \<Rightarrow> step_env \<Rightarrow> loop_vars \<Rightarrow> loop_vars" where
  "body cfg det env s =
     (let d_scat = tf_sample_scatter env (pos_r s);
          d_abs1 = clamp_d_abs (d_abs s);
          d = step_d d_scat d_abs1;
          rel_d_til_hit = tf_check_for_hits env (pos_r s) d (dir_v s);
          d_abs2 = hit_d_abs rel_d_til_hit d d_abs1;
          r1 = propagate_r (pos_r s) d rel_d_til_hit (dir_v s);
          t_step = map2 (*) d rel_d_til_hit;
          t1 = map2 (+) (time_t s) t_step;
          tl0 = map2 (+) (t_layer_0 s)
                  (tf_where (map (\<lambda>p. z_of p < 50) r1) t_step (zeros_like (t_layer_0 s)));
          tl1 = map2 (+) (t_layer_1 s)
                  (tf_where (map (\<lambda>p. z_of p \<ge> 50) r1) t_step (zeros_like (t_layer_1 s)));
          d_abs3 = cutoff_d_abs cfg det r1 d_abs2;
          v1 = tf_where (map (\<lambda>x. x > 0) d_abs3)
                 (tf_scatter (u_cos env) (u_theta env) (u_phi env) (dir_v s)) (dir_v s)
      in \<lparr>d_abs = d_abs3, pos_r = r1, dir_v = v1, time_t = t1,
          t_layer_0 = tl0, t_layer_1 = tl1\<rparr>)"

subsection \<open>The loop\<close>

text \<open>The condition \<^verbatim>\<open>tf.less(0., tf.reduce_max(d_abs))\<close>. The maximum of an empty tensor
  is minus infinity, so the condition is false for an empty batch.\<close>

definition loop_cond :: "loop_vars \<Rightarrow> bool" where
  "loop_cond s = (case d_abs s of [] \<Rightarrow> False | x # xs \<Rightarrow> 0 < fold max xs x)"

text \<open>\<^verbatim>\<open>tf.while_loop\<close>: the loop may run forever, in which case the result is \<open>None\<close>.
  Iteration \<open>k\<close> obtains its samples from \<open>envs k\<close>.\<close>

partial_function (option) while_loop ::
  "settings \<Rightarrow> detector \<Rightarrow> (nat \<Rightarrow> step_env) \<Rightarrow> nat \<Rightarrow> loop_vars \<Rightarrow> loop_vars option" where
  "while_loop cfg det envs k s =
     (if loop_cond s then while_loop cfg det envs (Suc k) (body cfg det (envs k) s)
      else Some s)"

text \<open>The initial loop variables; \<open>absorption\<close> is \<^verbatim>\<open>self._ice.tf_sample_absorption\<close>.\<close>

definition init_vars :: "(vec3 list \<Rightarrow> real list) \<Rightarrow> vec3 list \<Rightarrow> vec3 list \<Rightarrow> loop_vars" where
  "init_vars absorption r0 v0 =
     \<lparr>d_abs = absorption r0, pos_r = r0, dir_v = v0, time_t = zeros (length r0),
      t_layer_0 = zeros (length r0), t_layer_1 = zeros (length r0)\<rparr>"

text \<open>\<^verbatim>\<open>tf_propagate\<close>: the final loop variables, of which the model keeps \<open>pos_r\<close> as
  \<^verbatim>\<open>final_positions\<close>, \<open>time_t\<close> as \<^verbatim>\<open>arrival_times\<close>, and the two layer times.\<close>

definition tf_propagate ::
  "settings \<Rightarrow> detector \<Rightarrow> (vec3 list \<Rightarrow> real list) \<Rightarrow> (nat \<Rightarrow> step_env) \<Rightarrow>
   vec3 list \<Rightarrow> vec3 list \<Rightarrow> loop_vars option" where
  "tf_propagate cfg det absorption envs r0 v0 =
     while_loop cfg det envs 0 (init_vars absorption r0 v0)"

text \<open>The loop variables after \<open>n\<close> executions of the body, whatever the condition says:
  every state the loop passes through is one of these.\<close>

fun iterations :: "settings \<Rightarrow> detector \<Rightarrow> (nat \<Rightarrow> step_env) \<Rightarrow> nat \<Rightarrow> loop_vars \<Rightarrow> loop_vars" where
  "iterations cfg det envs 0 s = s"
| "iterations cfg det envs (Suc n) s = body cfg det (envs n) (iterations cfg det envs n s)"

subsection \<open>Shapes\<close>

text \<open>All six loop variables have batch size \<open>n\<close>.\<close>

definition well_shaped :: "nat \<Rightarrow> loop_vars \<Rightarrow> bool" where
  "well_shaped n s \<longleftrightarrow>
     length (d_abs s) = n \<and> length (pos_r s) = n \<and> length (dir_v s) = n \<and>
     length (time_t s) = n \<and> length (t_layer_0 s) = n \<and> length (t_layer_1 s) = n"

text \<open>The ice and the detector answer a batch of size \<open>n\<close> with a batch of size \<open>n\<close>.\<close>

definition env_shaped :: "nat \<Rightarrow> step_env \<Rightarrow> bool" where
  "env_shaped n env \<longleftrightarrow>
     (\<forall>rs. length rs = n \<longrightarrow> length (tf_sample_scatter env rs) = n) \<and>
     (\<forall>rs d vs. length rs = n \<longrightarrow> length (tf_check_for_hits env rs d vs) = n)"

text \<open>The photon of row \<open>i\<close>: its entries in the six loop variables.\<close>

definition lane :: "loop_vars \<Rightarrow> nat \<Rightarrow> real \<times> vec3 \<times> vec3 \<times> real \<times> real \<times> real" where
  "lane s i = (d_abs s ! i, pos_r s ! i, dir_v s ! i, time_t s ! i, t_layer_0 s ! i, t_layer_1 s ! i)"

subsection \<open>Rows that are not numbers\<close>

text \<open>
  Line 81 divides a cross product by its norm. When the sampled direction is parallel to
  \<open>v\<close> that is zero divided by zero, which in floating point is NaN in all three entries of
  the row (the source says: ignore the fact that n could be parallel to v). The square
  roots and the power of \<^verbatim>\<open>tf_scatter\<close> are NaN for a draw outside the interval from 0 to 1.
  NaN spreads: every sum and product with a NaN entry is NaN, also the product with zero,
  and every comparison with NaN is false. A real number cannot stand for NaN, so the
  definitions above describe the program where no such row arises (lemma
  \<open>body_nan_agrees\<close>), and this subsection embeds the same lines of the source once more
  with rows of type \<open>vec3 option\<close>, where \<open>None\<close> is a row of NaN. The scalar loop variables
  and the answers of the ice and of the detector remain real numbers.
\<close>

type_synonym row = "vec3 option"

text \<open>Sums, scalar multiples and the rotation of rows: NaN if an operand is.\<close>

fun add3_nan :: "row \<Rightarrow> row \<Rightarrow> row" where
  "add3_nan (Some a) (Some b) = Some (add3 a b)"
| "add3_nan _ _ = None"

fun scale3_nan :: "real \<Rightarrow> row \<Rightarrow> row" where
  "scale3_nan c (Some a) = Some (scale3 c a)"
| "scale3_nan c None = None"

fun rotate_nan :: "real \<times> row \<Rightarrow> row \<Rightarrow> row" where
  "rotate_nan (w, Some u) (Some x) = Some (rotate_vector_by_quaternion (w, u) x)"
| "rotate_nan _ _ = None"

text \<open>The comparisons \<^verbatim>\<open>r[:, 2] < 50\<close> and \<^verbatim>\<open>r[:, 2] >= 50\<close> on one row: both are false for
  NaN.\<close>

definition z_lt :: "row \<Rightarrow> real \<Rightarrow> bool" where
  "z_lt p c = (case p of None \<Rightarrow> False | Some a \<Rightarrow> z_of a < c)"

definition z_ge :: "row \<Rightarrow> real \<Rightarrow> bool" where
  "z_ge p c = (case p of None \<Rightarrow> False | Some a \<Rightarrow> z_of a \<ge> c)"

text \<open>\<^verbatim>\<open>tf_sample_normal_vectors\<close> on rows that may be NaN: the quotient of line 81 is NaN
  for a cross product of norm zero.\<close>

definition tf_sample_normal_vectors_nan ::
  "(nat \<Rightarrow> real) \<Rightarrow> (nat \<Rightarrow> real) \<Rightarrow> row list \<Rightarrow> row list" where
  "tf_sample_normal_vectors_nan ut up v =
     (let thetas = map (\<lambda>x. x * pi) (sample ut (length v));
          phis = map (\<lambda>x. x * 2 * pi) (sample up (length v));
          n = map2 (\<lambda>a w. map_option (cross3 a) w) (directions thetas phis) v
      in map (\<lambda>a. case a of None \<Rightarrow> None
                   | Some b \<Rightarrow> if norm3 b = 0 then None else Some (div3 b (norm3 b))) n)"

text \<open>\<^verbatim>\<open>tf_scatter\<close> on rows that may be NaN. For a draw outside the interval from 0 to 1
  the factor \<^verbatim>\<open>sinT2s\<close> is NaN (below 0 the power is NaN, above 1 the square root is), and
  with it the axis and the rotated row.\<close>

definition tf_scatter_nan ::
  "(nat \<Rightarrow> real) \<Rightarrow> (nat \<Rightarrow> real) \<Rightarrow> (nat \<Rightarrow> real) \<Rightarrow> row list \<Rightarrow> row list" where
  "tf_scatter_nan uc ut up v =
     (let us = sample uc (length v);
          cosTs = map (\<lambda>x. 2 * x powr (1 / 19) - 1) us;
          cosT2s = map (\<lambda>c. sqrt ((c + 1) / 2)) cosTs;
          sinT2s = map2 (\<lambda>x c. if 0 \<le> x \<and> x \<le> 1 then Some (sqrt ((1 - c) / 2)) else None)
                     us cosTs;
          ns = map2 (\<lambda>n s. case s of None \<Rightarrow> None | Some c \<Rightarrow> scale3_nan c n)
                 (tf_sample_normal_vectors_nan ut up v) sinT2s;
          q = zip cosT2s ns
      in map2 rotate_nan q v)"

text \<open>The loop variables and what an iteration obtains from outside, as before.\<close>

record nan_vars =
  d_abs_nan :: "real list"
  pos_r_nan :: "row list"
  dir_v_nan :: "row list"
  time_t_nan :: "real list"
  t_layer_0_nan :: "real list"
  t_layer_1_nan :: "real list"

record nan_env =
  tf_sample_scatter_nan :: "row list \<Rightarrow> real list"
  tf_check_for_hits_nan :: "row list \<Rightarrow> real list \<Rightarrow> row list \<Rightarrow> real list"
  u_cos_nan :: "nat \<Rightarrow> real"
  u_theta_nan :: "nat \<Rightarrow> real"
  u_phi_nan :: "nat \<Rightarrow> real"

text \<open>Line 129 on rows that may be NaN.\<close>

definition propagate_r_nan :: "row list \<Rightarrow> real list \<Rightarrow> real list \<Rightarrow> row list \<Rightarrow> row list" where
  "propagate_r_nan rs d rel_d_til_hit vs =
     map2 add3_nan rs (map2 scale3_nan (map2 (*) d rel_d_til_hit) vs)"

text \<open>Lines 142 to 150: the comparison of the distance with the radius is false for NaN.\<close>

definition cutoff_d_abs_nan :: "settings \<Rightarrow> detector \<Rightarrow> row list \<Rightarrow> real list \<Rightarrow> real list" where
  "cutoff_d_abs_nan cfg det rs da =
     (case CUTOFF_RADIUS cfg of
        None \<Rightarrow> da
      | Some c \<Rightarrow>
          if c = 0 then da
          else tf_where
                 (map (\<lambda>p. case p of
                              None \<Rightarrow> False
                            | Some a \<Rightarrow> norm3 (sub3 a (l_x det / 2, l_y det / 2, l_z det / 2))
                                          < c * norm3 (l_x det, l_y det, l_z det) / 2) rs)
                 da (zeros_like da))"

text \<open>The function \<^verbatim>\<open>body\<close> of \<^verbatim>\<open>tf_propagate\<close> on rows that may be NaN.\<close>

definition body_nan :: "settings \<Rightarrow> detector \<Rightarrow> nan_env \<Rightarrow> nan_vars \<Rightarrow> nan_vars" where
  "body_nan cfg det env s =
     (let d_scat = tf_sample_scatter_nan env (pos_r_nan s);
          d_abs1 = clamp_d_abs (d_abs_nan s);
          d = step_d d_scat d_abs1;
          rel_d_til_hit = tf_check_for_hits_nan env (pos_r_nan s) d (dir_v_nan s);
          d_abs2 = hit_d_abs rel_d_til_hit d d_abs1;
          r1 = propagate_r_nan (pos_r_nan s) d rel_d_til_hit (dir_v_nan s);
          t_step = map2 (*) d rel_d_til_hit;
          t1 = map2 (+) (time_t_nan s) t_step;
          tl0 = map2 (+) (t_layer_0_nan s)
                  (tf_where (map (\<lambda>p. z_lt p 50) r1) t_step (zeros_like (t_layer_0_nan s)));
          tl1 = map2 (+) (t_layer_1_nan s)
                  (tf_where (map (\<lambda>p. z_ge p 50) r1) t_step (zeros_like (t_layer_1_nan s)));
          d_abs3 = cutoff_d_abs_nan cfg det r1 d_abs2;
          v1 = tf_where (map (\<lambda>x. x > 0) d_abs3)
                 (tf_scatter_nan (u_cos_nan env) (u_theta_nan env) (u_phi_nan env) (dir_v_nan s))
                 (dir_v_nan s)
      in \<lparr>d_abs_nan = d_abs3, pos_r_nan = r1, dir_v_nan = v1, time_t_nan = t1,
          t_layer_0_nan = tl0, t_layer_1_nan = tl1\<rparr>)"

text \<open>The loop condition, the loop, the initial loop variables (the positions and directions
  that \<^verbatim>\<open>tf_init_cascades\<close> returns are numbers), \<^verbatim>\<open>tf_propagate\<close> and the loop variables
  after \<open>n\<close> executions of the body.\<close>

definition loop_cond_nan :: "nan_vars \<Rightarrow> bool" where
  "loop_cond_nan s = (case d_abs_nan s of [] \<Rightarrow> False | x # xs \<Rightarrow> 0 < fold max xs x)"

partial_function (option) while_loop_nan ::
  "settings \<Rightarrow> detector \<Rightarrow> (nat \<Rightarrow> nan_env) \<Rightarrow> nat \<Rightarrow> nan_vars \<Rightarrow> nan_vars option" where
  "while_loop_nan cfg det envs k s =
     (if loop_cond_nan s
      then while_loop_nan cfg det envs (Suc k) (body_nan cfg det (envs k) s)
      else Some s)"

definition init_vars_nan :: "(vec3 list \<Rightarrow> real list) \<Rightarrow> vec3 list \<Rightarrow> vec3 list \<Rightarrow> nan_vars" where
  "init_vars_nan absorption r0 v0 =
     \<lparr>d_abs_nan = absorption r0, pos_r_nan = map Some r0, dir_v_nan = map Some v0,
      time_t_nan = zeros (length r0), t_layer_0_nan = zeros (length r0),
      t_layer_1_nan = zeros (length r0)\<rparr>"

definition tf_propagate_nan ::
  "settings \<Rightarrow> detector \<Rightarrow> (vec3 list \<Rightarrow> real list) \<Rightarrow> (nat \<Rightarrow> nan_env) \<Rightarrow>
   vec3 list \<Rightarrow> vec3 list \<Rightarrow> nan_vars option" where
  "tf_propagate_nan cfg det absorption envs r0 v0 =
     while_loop_nan cfg det envs 0 (init_vars_nan absorption r0 v0)"

fun iterations_nan ::
  "settings \<Rightarrow> detector \<Rightarrow> (nat \<Rightarrow> nan_env) \<Rightarrow> nat \<Rightarrow> nan_vars \<Rightarrow> nan_vars" where
  "iterations_nan cfg det envs 0 s = s"
| "iterations_nan cfg det envs (Suc n) s =
     body_nan cfg det (envs n) (iterations_nan cfg det envs n s)"

definition well_shaped_nan :: "nat \<Rightarrow> nan_vars \<Rightarrow> bool" where
  "well_shaped_nan n s \<longleftrightarrow>
     length (d_abs_nan s) = n \<and> length (pos_r_nan s) = n \<and> length (dir_v_nan s) = n \<and>
     length (time_t_nan s) = n \<and> length (t_layer_0_nan s) = n \<and> length (t_layer_1_nan s) = n"

definition env_shaped_nan :: "nat \<Rightarrow> nan_env \<Rightarrow> bool" where
  "env_shaped_nan n env \<longleftrightarrow>
     (\<forall>rs. length rs = n \<longrightarrow> length (tf_sample_scatter_nan env rs) = n) \<and>
     (\<forall>rs d vs. length rs = n \<longrightarrow> length (tf_check_for_hits_nan env rs d vs) = n)"

text \<open>The scattering of row \<open>i\<close> with direction \<open>w\<close> is a number: the draw of the scattering
  variable lies between 0 and 1 and the sampled direction is not parallel to \<open>w\<close>.\<close>

definition scatter_defined :: "nan_env \<Rightarrow> nat \<Rightarrow> vec3 \<Rightarrow> bool" where
  "scatter_defined env i w \<longleftrightarrow>
     0 \<le> u_cos_nan env i \<and> u_cos_nan env i \<le> 1 \<and>
     cross3 (sin (u_theta_nan env i * pi) * cos (u_phi_nan env i * 2 * pi),
             sin (u_theta_nan env i * pi) * sin (u_phi_nan env i * 2 * pi),
             cos (u_theta_nan env i * pi)) w \<noteq> (0, 0, 0)"

text \<open>The two embeddings side by side: loop variables without NaN as loop variables that
  may hold NaN, and the ice and the detector restricted to rows that are numbers.\<close>

definition lift_vars :: "loop_vars \<Rightarrow> nan_vars" where
  "lift_vars s =
     \<lparr>d_abs_nan = d_abs s, pos_r_nan = map Some (pos_r s), dir_v_nan = map Some (dir_v s),
      time_t_nan = time_t s, t_layer_0_nan = t_layer_0 s, t_layer_1_nan = t_layer_1 s\<rparr>"

definition real_env :: "nan_env \<Rightarrow> step_env" where
  "real_env env =
     \<lparr>tf_sample_scatter = (\<lambda>rs. tf_sample_scatter_nan env (map Some rs)),
      tf_check_for_hits = (\<lambda>rs d vs. tf_check_for_hits_nan env (map Some rs) d (map Some vs)),
      u_cos = u_cos_nan env, u_theta = u_theta_nan env, u_phi = u_phi_nan env\<rparr>"

subsection \<open>Test fixtures\<close>

text \<open>A deterministic medium and detector in the manner of the specification's scenarios:
  every scatter distance is \<open>ds\<close>, every hit fraction is \<open>hf\<close>.\<close>

definition mock_env :: "real \<Rightarrow> real \<Rightarrow> step_env" where
  "mock_env ds hf =
     \<lparr>tf_sample_scatter = (\<lambda>rs. map (\<lambda>_. ds) rs),
      tf_check_for_hits = (\<lambda>rs d vs. map (\<lambda>_. hf) rs),
      u_cos = (\<lambda>_. 1), u_theta = (\<lambda>_. 1 / 2), u_phi = (\<lambda>_. 0)\<rparr>"

text \<open>A draw that gives the same value in every row.\<close>

definition const_draw :: "real \<Rightarrow> nat \<Rightarrow> real" where
  "const_draw c i = c"

text \<open>A batch of one photon.\<close>

definition single :: "real \<Rightarrow> vec3 \<Rightarrow> vec3 \<Rightarrow> real \<Rightarrow> real \<Rightarrow> real \<Rightarrow> loop_vars" where
  "single da p w tm t0 t1 =
     \<lparr>d_abs = [da], pos_r = [p], dir_v = [w], time_t = [tm], t_layer_0 = [t0], t_layer_1 = [t1]\<rparr>"

text \<open>The deterministic medium and detector for rows that may be NaN, with the three draws
  of the scattering the same in every row and every iteration, and a constant initial
  absorption distance.\<close>

definition mock_envs_nan :: "real \<Rightarrow> real \<Rightarrow> real \<Rightarrow> real \<Rightarrow> real \<Rightarrow> nat \<Rightarrow> nan_env" where
  "mock_envs_nan ds hf uc ut up k =
     \<lparr>tf_sample_scatter_nan = (\<lambda>rs. map (\<lambda>_. ds) rs),
      tf_check_for_hits_nan = (\<lambda>rs d vs. map (\<lambda>_. hf) rs),
      u_cos_nan = const_draw uc, u_theta_nan = const_draw ut, u_phi_nan = const_draw up\<rparr>"

definition mock_absorption :: "real \<Rightarrow> vec3 list \<Rightarrow> real list" where
  "mock_absorption c rs = map (\<lambda>_. c) rs"

section \<open>Cascade initialisation\<close>

lemma round_half_even_of_int [simp]: "round_half_even (of_int z) = z"
  by (simp add: round_half_even_def)

lemma float64_exact:
  fixes k :: nat
  assumes k: "1 \<le> k" "k \<le> 2 ^ 53"
  shows "float64 (real k) = real k"
proof -
  define e where "e = \<lfloor>log 2 (real k)\<rfloor>"
  have pos: "0 < real k"
    using k by simp
  have e0: "0 \<le> e"
    using k by (simp add: e_def)
  have lo: "2 powr (of_int e) \<le> real k"
    using pos by (simp add: e_def le_log_iff [symmetric])
  have "log 2 (real k) \<le> 53"
    using k log2_of_power_le [of k 53] by simp
  then have e53: "e \<le> 53"
    unfolding e_def by (simp add: floor_le_iff)
  have ulp: "(2::real) powr (of_int e - 52) \<noteq> 0"
    by simp
  have "\<exists>z::int. real k / 2 powr (of_int e - 52) = of_int z"
  proof (cases "e \<le> 52")
    case True
    then have "(2::real) powr (of_int e - 52) = 1 / 2 ^ nat (52 - e)"
      using powr_int [of "2::real" "e - 52"] by simp
    then have "real k / 2 powr (of_int e - 52) = of_int (int k * 2 ^ nat (52 - e))"
      by simp
    then show ?thesis ..
  next
    case False
    with e53 have e: "e = 53"
      by simp
    with lo have "2 ^ 53 \<le> real k"
      by simp
    with k have "real k = 2 ^ 53"
      by simp
    then have "real k / 2 powr (of_int e - 52) = of_int (2 ^ 52)"
      by (simp add: e)
    then show ?thesis ..
  qed
  then obtain z :: int where z: "real k / 2 powr (of_int e - 52) = of_int z"
    by blast
  have "float64 (real k) = of_int z * 2 powr (of_int e - 52)"
    unfolding float64_def Let_def e_def [symmetric] z by simp
  also have "\<dots> = real k"
    using z ulp by (simp add: field_simps)
  finally show ?thesis .
qed

lemma int_true_div_exact:
  assumes "0 < c" "c dvd b" "b div c \<le> 2 ^ 53"
  shows "int_true_div b c = Inr (b div c)"
proof (cases "b = 0")
  case True
  with assms show ?thesis
    by (simp add: int_true_div_def)
next
  case False
  define k where "k = b div c"
  have b: "b = k * c"
    using assms(2) by (simp add: k_def)
  have k1: "1 \<le> k"
    using False b by (cases k) simp_all
  have q: "real b / real c = real k"
    using assms(1) by (simp add: b)
  have f: "float64 (real b / real c) = real k"
    unfolding q using k1 assms(3) by (intro float64_exact) (simp_all add: k_def)
  have "real k \<le> 2 ^ 53"
    using assms(3) unfolding k_def [symmetric] by (metis of_nat_le_iff of_nat_numeral of_nat_power)
  also have "\<dots> < (2::real) ^ 1024"
    by simp
  finally have "\<not> 2 ^ 1024 \<le> real k"
    by simp
  then show ?thesis
    using False assms(1) by (simp add: int_true_div_def f k_def [symmetric])
qed

lemma float64_tie:  "float64 (2 ^ 53 + 1) = 2 ^ 53"
proof -
  have "53 \<le> log 2 (2 ^ 53 + 1 :: real)"
    by (subst le_log_iff) simp_all
  moreover have "log 2 (2 ^ 53 + 1 :: real) < 54"
    by (subst log_less_iff) simp_all
  ultimately have e: "\<lfloor>log 2 (2 ^ 53 + 1 :: real)\<rfloor> = 53"
    by (simp add: floor_eq_iff)
  have fl: "\<lfloor>(2 ^ 53 + 1 :: real) / 2\<rfloor> = 2 ^ 52"
    by (simp add: floor_eq_iff)
  have "round_half_even ((2 ^ 53 + 1) / 2) = 2 ^ 52"
    unfolding round_half_even_def Let_def fl by simp
  then show ?thesis
    unfolding float64_def Let_def e by simp
qed

lemma length_tile: "length (tile x k) = k * length x"
  by (induction k) (simp_all add: tile_def)

lemma set_tile: "set (tile x k) \<subseteq> set x"
  by (induction k) (simp_all add: tile_def)

lemma nth_tile: "i < k * length x \<Longrightarrow> tile x k ! i = x ! (i mod length x)"
proof (induction k arbitrary: i)
  case 0
  then show ?case by simp
next
  case (Suc k)
  have unfold: "tile x (Suc k) = x @ tile x k"
    by (simp add: tile_def)
  show ?case
  proof (cases "i < length x")
    case True
    then show ?thesis by (simp add: unfold nth_append)
  next
    case False
    then have "i - length x < k * length x"
      using Suc.prems by simp
    then have "tile x k ! (i - length x) = x ! ((i - length x) mod length x)"
      by (rule Suc.IH)
    moreover have "(i - length x) mod length x = i mod length x"
      using False by (simp add: le_mod_geq)
    ultimately show ?thesis
      using False by (simp add: unfold nth_append)
  qed
qed

lemma count_tile: "count_list (tile x k) p = k * count_list x p"
proof (induction k)
  case 0
  then show ?case by (simp add: tile_def)
next
  case (Suc k)
  have "tile x (Suc k) = x @ tile x k"
    by (simp add: tile_def)
  then show ?case
    using Suc by simp
qed

lemma count_list_distinct: "distinct x \<Longrightarrow> p \<in> set x \<Longrightarrow> count_list x p = 1"
  by (induction x) (auto simp: count_list_0_iff)

section \<open>Rows of the loop body\<close>

lemma length_tf_where [simp]:
  "length (tf_where c x y) = min (length c) (min (length x) (length y))"
  by (simp add: tf_where_def)

lemma nth_tf_where:
  "i < length c \<Longrightarrow> i < length x \<Longrightarrow> i < length y \<Longrightarrow>
   tf_where c x y ! i = (if c ! i then x ! i else y ! i)"
  by (simp add: tf_where_def)

lemma length_zeros_like [simp]: "length (zeros_like x) = length x"
  by (simp add: zeros_like_def)

lemma nth_zeros_like [simp]: "i < length x \<Longrightarrow> zeros_like x ! i = 0"
  by (simp add: zeros_like_def)

lemma length_clamp_d_abs [simp]: "length (clamp_d_abs da) = length da"
  by (simp add: clamp_d_abs_def)

lemma nth_clamp_d_abs: "i < length da \<Longrightarrow> clamp_d_abs da ! i = max (da ! i) 0"
  by (simp add: clamp_d_abs_def nth_tf_where max_def)

lemma length_step_d [simp]: "length (step_d d_scat da) = min (length d_scat) (length da)"
  by (simp add: step_d_def)

lemma nth_step_d:
  "i < length d_scat \<Longrightarrow> i < length da \<Longrightarrow> step_d d_scat da ! i = min (d_scat ! i) (da ! i)"
  by (simp add: step_d_def nth_tf_where min_def)

lemma length_hit_d_abs [simp]:
  "length (hit_d_abs rel d da) = min (length rel) (min (length d) (length da))"
  by (simp add: hit_d_abs_def)

lemma nth_hit_d_abs:
  "i < length rel \<Longrightarrow> i < length d \<Longrightarrow> i < length da \<Longrightarrow>
   hit_d_abs rel d da ! i = (if rel ! i < 1 then 0 else da ! i - d ! i)"
  by (simp add: hit_d_abs_def nth_tf_where)

lemma length_propagate_r [simp]:
  "length (propagate_r rs d rel vs) =
     min (length rs) (min (min (length d) (length rel)) (length vs))"
  by (simp add: propagate_r_def)

lemma nth_propagate_r:
  "i < length rs \<Longrightarrow> i < length d \<Longrightarrow> i < length rel \<Longrightarrow> i < length vs \<Longrightarrow>
   propagate_r rs d rel vs ! i = add3 (rs ! i) (scale3 (d ! i * rel ! i) (vs ! i))"
  by (simp add: propagate_r_def)

lemma length_cutoff_d_abs:
  "length rs = length da \<Longrightarrow> length (cutoff_d_abs cfg det rs da) = length da"
  by (simp add: cutoff_d_abs_def split: option.splits)

lemma nth_cutoff_d_abs_off:
  "CUTOFF_RADIUS cfg = None \<or> CUTOFF_RADIUS cfg = Some 0 \<Longrightarrow> cutoff_d_abs cfg det rs da = da"
  by (auto simp add: cutoff_d_abs_def split: option.splits)

lemma nth_cutoff_d_abs_on:
  "CUTOFF_RADIUS cfg = Some c \<Longrightarrow> c \<noteq> 0 \<Longrightarrow> i < length rs \<Longrightarrow> i < length da \<Longrightarrow>
   cutoff_d_abs cfg det rs da ! i =
     (if norm3 (sub3 (rs ! i) (l_x det / 2, l_y det / 2, l_z det / 2))
           < c * norm3 (l_x det, l_y det, l_z det) / 2
      then da ! i else 0)"
  by (simp add: cutoff_d_abs_def nth_tf_where)


lemma length_sample [simp]: "length (sample u n) = n"
  by (simp add: sample_def)

lemma nth_sample [simp]: "i < n \<Longrightarrow> sample u n ! i = u i"
  by (simp add: sample_def)

lemma length_directions [simp]:
  "length (directions thetas phis) = min (length thetas) (length phis)"
  by (simp add: directions_def)

lemma length_tf_sample_normal_vectors [simp]:
  "length (tf_sample_normal_vectors ut up v) = length v"
  by (simp add: tf_sample_normal_vectors_def Let_def)

lemma length_tf_scatter [simp]: "length (tf_scatter uc ut up v) = length v"
  by (simp add: tf_scatter_def Let_def)

lemma body_sel:
  "d_abs (body cfg det env s) =
     cutoff_d_abs cfg det (pos_r (body cfg det env s))
       (hit_d_abs
          (tf_check_for_hits env (pos_r s)
             (step_d (tf_sample_scatter env (pos_r s)) (clamp_d_abs (d_abs s))) (dir_v s))
          (step_d (tf_sample_scatter env (pos_r s)) (clamp_d_abs (d_abs s)))
          (clamp_d_abs (d_abs s)))"
  "pos_r (body cfg det env s) =
     propagate_r (pos_r s)
       (step_d (tf_sample_scatter env (pos_r s)) (clamp_d_abs (d_abs s)))
       (tf_check_for_hits env (pos_r s)
          (step_d (tf_sample_scatter env (pos_r s)) (clamp_d_abs (d_abs s))) (dir_v s))
       (dir_v s)"
  "dir_v (body cfg det env s) =
     tf_where (map (\<lambda>x. x > 0) (d_abs (body cfg det env s)))
       (tf_scatter (u_cos env) (u_theta env) (u_phi env) (dir_v s)) (dir_v s)"
  "time_t (body cfg det env s) =
     map2 (+) (time_t s)
       (map2 (*) (step_d (tf_sample_scatter env (pos_r s)) (clamp_d_abs (d_abs s)))
          (tf_check_for_hits env (pos_r s)
             (step_d (tf_sample_scatter env (pos_r s)) (clamp_d_abs (d_abs s))) (dir_v s)))"
  "t_layer_0 (body cfg det env s) =
     map2 (+) (t_layer_0 s)
       (tf_where (map (\<lambda>p. z_of p < 50) (pos_r (body cfg det env s)))
          (map2 (*) (step_d (tf_sample_scatter env (pos_r s)) (clamp_d_abs (d_abs s)))
             (tf_check_for_hits env (pos_r s)
                (step_d (tf_sample_scatter env (pos_r s)) (clamp_d_abs (d_abs s))) (dir_v s)))
          (zeros_like (t_layer_0 s)))"
  "t_layer_1 (body cfg det env s) =
     map2 (+) (t_layer_1 s)
       (tf_where (map (\<lambda>p. z_of p \<ge> 50) (pos_r (body cfg det env s)))
          (map2 (*) (step_d (tf_sample_scatter env (pos_r s)) (clamp_d_abs (d_abs s)))
             (tf_check_for_hits env (pos_r s)
                (step_d (tf_sample_scatter env (pos_r s)) (clamp_d_abs (d_abs s))) (dir_v s)))
          (zeros_like (t_layer_1 s)))"
  by (simp_all add: body_def Let_def)

lemma body_well_shaped:
  assumes "well_shaped n s" and "env_shaped n env"
  shows "well_shaped n (body cfg det env s)"
proof -
  from assms have len: "length (d_abs s) = n" "length (pos_r s) = n" "length (dir_v s) = n"
    "length (time_t s) = n" "length (t_layer_0 s) = n" "length (t_layer_1 s) = n"
    "length (tf_sample_scatter env (pos_r s)) = n"
    "\<And>d. length (tf_check_for_hits env (pos_r s) d (dir_v s)) = n"
    by (simp_all add: well_shaped_def env_shaped_def)
  have r: "length (pos_r (body cfg det env s)) = n"
    by (simp add: body_sel len)
  have "length (d_abs (body cfg det env s)) = n"
    by (subst body_sel(1), subst length_cutoff_d_abs) (simp_all add: r len)
  then show ?thesis
    unfolding well_shaped_def
    using r by (simp add: body_sel(3-6) len)
qed


lemma body_lane:
  fixes cfg det env s i
  defines "d_scat \<equiv> tf_sample_scatter env (pos_r s) ! i"
  defines "da \<equiv> max (d_abs s ! i) 0"
  defines "d \<equiv> min d_scat da"
  defines "rel \<equiv> tf_check_for_hits env (pos_r s)
                   (step_d (tf_sample_scatter env (pos_r s)) (clamp_d_abs (d_abs s)))
                   (dir_v s) ! i"
  defines "s' \<equiv> body cfg det env s"
  assumes shaped: "well_shaped n s" "env_shaped n env" and i: "i < n"
  shows body_lane_pos: "pos_r s' ! i = add3 (pos_r s ! i) (scale3 (d * rel) (dir_v s ! i))"
    and body_lane_time: "time_t s' ! i = time_t s ! i + d * rel"
    and body_lane_t0:
      "t_layer_0 s' ! i = t_layer_0 s ! i + (if z_of (pos_r s' ! i) < 50 then d * rel else 0)"
    and body_lane_t1:
      "t_layer_1 s' ! i = t_layer_1 s ! i + (if z_of (pos_r s' ! i) \<ge> 50 then d * rel else 0)"
    and body_lane_hit:
      "hit_d_abs
         (tf_check_for_hits env (pos_r s)
            (step_d (tf_sample_scatter env (pos_r s)) (clamp_d_abs (d_abs s))) (dir_v s))
         (step_d (tf_sample_scatter env (pos_r s)) (clamp_d_abs (d_abs s)))
         (clamp_d_abs (d_abs s)) ! i = (if rel < 1 then 0 else da - d)"
    and body_lane_d_abs_off:
      "CUTOFF_RADIUS cfg = None \<or> CUTOFF_RADIUS cfg = Some 0 \<Longrightarrow>
       d_abs s' ! i = (if rel < 1 then 0 else da - d)"
    and body_lane_d_abs_on:
      "\<And>c. CUTOFF_RADIUS cfg = Some c \<Longrightarrow> c \<noteq> 0 \<Longrightarrow>
       d_abs s' ! i =
         (if norm3 (sub3 (pos_r s' ! i) (l_x det / 2, l_y det / 2, l_z det / 2))
               < c * norm3 (l_x det, l_y det, l_z det) / 2
          then (if rel < 1 then 0 else da - d) else 0)"
    and body_lane_dir:
      "dir_v s' ! i =
         (if d_abs s' ! i > 0
          then tf_scatter (u_cos env) (u_theta env) (u_phi env) (dir_v s) ! i
          else dir_v s ! i)"
proof -
  from shaped have len: "length (d_abs s) = n" "length (pos_r s) = n" "length (dir_v s) = n"
    "length (time_t s) = n" "length (t_layer_0 s) = n" "length (t_layer_1 s) = n"
    "length (tf_sample_scatter env (pos_r s)) = n"
    "\<And>d. length (tf_check_for_hits env (pos_r s) d (dir_v s)) = n"
    by (simp_all add: well_shaped_def env_shaped_def)
  have ws: "well_shaped n s'"
    unfolding s'_def using shaped by (rule body_well_shaped)
  then have len': "length (d_abs s') = n" "length (pos_r s') = n"
    by (simp_all add: well_shaped_def)
  have dstep: "step_d (tf_sample_scatter env (pos_r s)) (clamp_d_abs (d_abs s)) ! i = d"
    using i by (simp add: nth_step_d nth_clamp_d_abs len d_def d_scat_def da_def)
  show pos: "pos_r s' ! i = add3 (pos_r s ! i) (scale3 (d * rel) (dir_v s ! i))"
    unfolding s'_def body_sel(2)
    using i by (simp add: nth_propagate_r len dstep rel_def)
  show "time_t s' ! i = time_t s ! i + d * rel"
    unfolding s'_def body_sel(4)
    using i by (simp add: len dstep rel_def)
  show "t_layer_0 s' ! i = t_layer_0 s ! i + (if z_of (pos_r s' ! i) < 50 then d * rel else 0)"
    using i len'(2) unfolding s'_def
    by (subst body_sel(5)) (simp add: len nth_tf_where dstep rel_def)
  show "t_layer_1 s' ! i = t_layer_1 s ! i + (if z_of (pos_r s' ! i) \<ge> 50 then d * rel else 0)"
    using i len'(2) unfolding s'_def
    by (subst body_sel(6)) (simp add: len nth_tf_where dstep rel_def)
  show hit: "hit_d_abs
         (tf_check_for_hits env (pos_r s)
            (step_d (tf_sample_scatter env (pos_r s)) (clamp_d_abs (d_abs s))) (dir_v s))
         (step_d (tf_sample_scatter env (pos_r s)) (clamp_d_abs (d_abs s)))
         (clamp_d_abs (d_abs s)) ! i = (if rel < 1 then 0 else da - d)"
    using i by (simp add: nth_hit_d_abs len dstep nth_clamp_d_abs rel_def da_def)
  show "d_abs s' ! i = (if rel < 1 then 0 else da - d)"
    if "CUTOFF_RADIUS cfg = None \<or> CUTOFF_RADIUS cfg = Some 0"
    unfolding s'_def body_sel(1) nth_cutoff_d_abs_off [OF that] by (rule hit)
  show "d_abs s' ! i =
         (if norm3 (sub3 (pos_r s' ! i) (l_x det / 2, l_y det / 2, l_z det / 2))
               < c * norm3 (l_x det, l_y det, l_z det) / 2
          then (if rel < 1 then 0 else da - d) else 0)"
    if "CUTOFF_RADIUS cfg = Some c" "c \<noteq> 0" for c
  proof -
    have "d_abs s' ! i = cutoff_d_abs cfg det (pos_r s')
       (hit_d_abs
          (tf_check_for_hits env (pos_r s)
             (step_d (tf_sample_scatter env (pos_r s)) (clamp_d_abs (d_abs s))) (dir_v s))
          (step_d (tf_sample_scatter env (pos_r s)) (clamp_d_abs (d_abs s)))
          (clamp_d_abs (d_abs s))) ! i"
      unfolding s'_def by (subst body_sel(1)) simp
    also have "\<dots> = (if norm3 (sub3 (pos_r s' ! i) (l_x det / 2, l_y det / 2, l_z det / 2))
               < c * norm3 (l_x det, l_y det, l_z det) / 2
          then (if rel < 1 then 0 else da - d) else 0)"
      using i by (subst nth_cutoff_d_abs_on [OF that]) (simp_all add: len len' hit)
    finally show ?thesis .
  qed
  show "dir_v s' ! i =
         (if d_abs s' ! i > 0
          then tf_scatter (u_cos env) (u_theta env) (u_phi env) (dir_v s) ! i
          else dir_v s ! i)"
    using i len'(1) unfolding s'_def
    by (subst body_sel(3)) (simp add: nth_tf_where len)
qed

section \<open>The loop and the test fixtures\<close>

lemma well_shaped_single [simp]: "well_shaped (Suc 0) (single da p w tm t0 t1)"
  by (simp add: well_shaped_def single_def)

lemma env_shaped_mock [simp]: "env_shaped n (mock_env ds hf)"
  by (simp add: env_shaped_def mock_env_def)

lemma mock_env_sel [simp]:
  "tf_sample_scatter (mock_env ds hf) rs = map (\<lambda>_. ds) rs"
  "tf_check_for_hits (mock_env ds hf) rs d vs = map (\<lambda>_. hf) rs"
  by (simp_all add: mock_env_def)

lemma single_sel [simp]:
  "d_abs (single da p w tm t0 t1) = [da]"
  "pos_r (single da p w tm t0 t1) = [p]"
  "dir_v (single da p w tm t0 t1) = [w]"
  "time_t (single da p w tm t0 t1) = [tm]"
  "t_layer_0 (single da p w tm t0 t1) = [t0]"
  "t_layer_1 (single da p w tm t0 t1) = [t1]"
  by (simp_all add: single_def)

lemma fold_max_pos: "0 < fold max xs (x::real) \<longleftrightarrow> 0 < x \<or> (\<exists>y \<in> set xs. 0 < y)"
  by (induction xs arbitrary: x) (auto simp: max_def)

lemma loop_cond_iff: "loop_cond s \<longleftrightarrow> (\<exists>x \<in> set (d_abs s). 0 < x)"
  by (cases "d_abs s") (simp_all add: loop_cond_def fold_max_pos)

lemma iterations_well_shaped:
  assumes "well_shaped n s" and "\<forall>k. env_shaped n (envs k)"
  shows "well_shaped n (iterations cfg det envs m s)"
  using assms by (induction m) (simp_all add: body_well_shaped)

lemma frozen_step:
  assumes shaped: "well_shaped n s" "env_shaped n env" and i: "i < n"
    and frozen: "d_abs s ! i = 0"
    and scat: "0 < tf_sample_scatter env (pos_r s) ! i"
  shows "lane (body cfg det env s) i = lane s i"
proof -
  let ?s' = "body cfg det env s"
  have d: "min (tf_sample_scatter env (pos_r s) ! i) 0 = 0"
    using scat by simp
  have da: "d_abs ?s' ! i = 0"
  proof (cases "CUTOFF_RADIUS cfg = None \<or> CUTOFF_RADIUS cfg = Some 0")
    case True
    from body_lane_d_abs_off [OF shaped i True] show ?thesis
      by (simp add: d frozen)
  next
    case False
    then obtain c where "CUTOFF_RADIUS cfg = Some c" "c \<noteq> 0"
      by (cases "CUTOFF_RADIUS cfg") auto
    from body_lane_d_abs_on [OF shaped i this] show ?thesis
      by (simp add: d frozen)
  qed
  obtain px py pz where p: "pos_r s ! i = (px, py, pz)"
    by (cases "pos_r s ! i")
  obtain vx vy vz where v: "dir_v s ! i = (vx, vy, vz)"
    by (cases "dir_v s ! i")
  have pos: "pos_r ?s' ! i = pos_r s ! i"
    using body_lane_pos [OF shaped i, of cfg det] by (simp add: d frozen p v)
  have tm: "time_t ?s' ! i = time_t s ! i"
    using body_lane_time [OF shaped i, of cfg det] by (simp add: d frozen)
  have t0: "t_layer_0 ?s' ! i = t_layer_0 s ! i"
    using body_lane_t0 [OF shaped i, of cfg det] by (simp add: d frozen)
  have t1: "t_layer_1 ?s' ! i = t_layer_1 s ! i"
    using body_lane_t1 [OF shaped i, of cfg det] by (simp add: d frozen)
  have dir: "dir_v ?s' ! i = dir_v s ! i"
    using body_lane_dir [OF shaped i, of cfg det] by (simp add: da)
  show ?thesis
    by (simp add: lane_def da frozen pos tm t0 t1 dir)
qed


lemma well_shaped_init_vars:
  "length (absorption r0) = n \<Longrightarrow> length r0 = n \<Longrightarrow> length v0 = n \<Longrightarrow>
   well_shaped n (init_vars absorption r0 v0)"
  by (simp add: well_shaped_def init_vars_def zeros_def)

lemma init_vars_sel [simp]:
  "d_abs (init_vars absorption r0 v0) = absorption r0"
  "pos_r (init_vars absorption r0 v0) = r0"
  "dir_v (init_vars absorption r0 v0) = v0"
  "time_t (init_vars absorption r0 v0) = zeros (length r0)"
  "t_layer_0 (init_vars absorption r0 v0) = zeros (length r0)"
  "t_layer_1 (init_vars absorption r0 v0) = zeros (length r0)"
  by (simp_all add: init_vars_def)

lemma nth_zeros [simp]: "i < n \<Longrightarrow> zeros n ! i = 0"
  by (simp add: zeros_def)

section \<open>Norms and the rotation\<close>

lemma norm3_sq: "(norm3 (a1, a2, a3))\<^sup>2 = a1 * a1 + a2 * a2 + a3 * a3"
proof -
  have "0 \<le> a1 * a1 + a2 * a2 + a3 * a3"
    by (intro add_nonneg_nonneg) simp_all
  then show ?thesis
    by simp
qed

lemma norm3_eq_zero: "norm3 a = 0 \<longleftrightarrow> a = (0, 0, 0)"
proof (cases a)
  case (fields a1 a2 a3)
  have nonneg: "0 \<le> a1 * a1" "0 \<le> a2 * a2" "0 \<le> a3 * a3"
    by simp_all
  have "a1 * a1 + a2 * a2 + a3 * a3 = 0 \<longleftrightarrow> a1 = 0 \<and> a2 = 0 \<and> a3 = 0"
    using nonneg by (auto simp: add_nonneg_eq_0_iff)
  then show ?thesis
    by (simp add: fields)
qed

lemma norm3_nonneg: "0 \<le> norm3 a"
  by (cases a) simp

lemma rotate_sq:
  "(norm3 (rotate_vector_by_quaternion (w, (u1, u2, u3)) (v1, v2, v3)))\<^sup>2 =
     (norm3 (v1, v2, v3))\<^sup>2
     + 4 * (w * w + (norm3 (u1, u2, u3))\<^sup>2 - 1) * (norm3 (cross3 (u1, u2, u3) (v1, v2, v3)))\<^sup>2"
  by (simp only: rotate_vector_by_quaternion.simps cross3.simps scale3.simps add3.simps norm3_sq)
    (simp add: algebra_simps)

lemma rotate_norm:
  assumes unit: "w * w + (norm3 u)\<^sup>2 = 1"
  shows "norm3 (rotate_vector_by_quaternion (w, u) v) = norm3 v"
proof -
  obtain u1 u2 u3 where u: "u = (u1, u2, u3)"
    by (cases u)
  obtain v1 v2 v3 where v: "v = (v1, v2, v3)"
    by (cases v)
  have "(norm3 (rotate_vector_by_quaternion (w, u) v))\<^sup>2 = (norm3 v)\<^sup>2"
    unfolding u v rotate_sq using unit by (simp add: u del: norm3.simps)
  then show ?thesis
    by (simp add: power2_eq_iff_nonneg norm3_nonneg del: norm3.simps)
qed

lemma norm3_normalised:
  assumes "n \<noteq> (0, 0, 0)"
  shows "(norm3 (div3 n (norm3 n)))\<^sup>2 = 1"
proof -
  obtain n1 n2 n3 where n: "n = (n1, n2, n3)"
    by (cases n)
  define c where "c = norm3 n"
  have nz: "c \<noteq> 0"
    using assms by (simp add: c_def norm3_eq_zero)
  have c2: "n1 * n1 + n2 * n2 + n3 * n3 = c * c"
    unfolding c_def n norm3_sq [symmetric] by (simp add: power2_eq_square)
  have "(norm3 (div3 n c))\<^sup>2 = (n1 * n1 + n2 * n2 + n3 * n3) / (c * c)"
    unfolding n div3.simps norm3_sq by (simp add: add_divide_distrib)
  also have "\<dots> = 1"
    using nz by (simp add: c2)
  finally show ?thesis
    by (simp add: c_def)
qed

lemma norm3_scale3_sq: "(norm3 (scale3 c a))\<^sup>2 = c\<^sup>2 * (norm3 a)\<^sup>2"
proof -
  obtain a1 a2 a3 where a: "a = (a1, a2, a3)"
    by (cases a)
  show ?thesis
    unfolding a scale3.simps norm3_sq
    by (simp add: power2_eq_square algebra_simps)
qed

lemma nth_directions:
  "i < length thetas \<Longrightarrow> i < length phis \<Longrightarrow>
   directions thetas phis ! i
     = (sin (thetas ! i) * cos (phis ! i), sin (thetas ! i) * sin (phis ! i), cos (thetas ! i))"
  by (simp add: directions_def)

lemma nth_tf_sample_normal_vectors:
  assumes "i < length v"
  shows "tf_sample_normal_vectors ut up v ! i =
     div3 (cross3 (sin (ut i * pi) * cos (up i * 2 * pi), sin (ut i * pi) * sin (up i * 2 * pi),
                   cos (ut i * pi)) (v ! i))
       (norm3 (cross3 (sin (ut i * pi) * cos (up i * 2 * pi),
                       sin (ut i * pi) * sin (up i * 2 * pi), cos (ut i * pi)) (v ! i)))"
  using assms by (simp add: tf_sample_normal_vectors_def Let_def nth_directions)

lemma nth_tf_scatter:
  assumes "i < length v"
  shows "tf_scatter uc ut up v ! i =
     rotate_vector_by_quaternion
       (sqrt ((2 * uc i powr (1 / 19) - 1 + 1) / 2),
        scale3 (sqrt ((1 - (2 * uc i powr (1 / 19) - 1)) / 2)) (tf_sample_normal_vectors ut up v ! i))
       (v ! i)"
  using assms by (simp add: tf_scatter_def Let_def)


section \<open>The loop body with rows that are not numbers\<close>

lemma length_propagate_r_nan [simp]:
  "length (propagate_r_nan rs d rel vs) =
     min (length rs) (min (min (length d) (length rel)) (length vs))"
  by (simp add: propagate_r_nan_def)

lemma nth_propagate_r_nan:
  "i < length rs \<Longrightarrow> i < length d \<Longrightarrow> i < length rel \<Longrightarrow> i < length vs \<Longrightarrow>
   propagate_r_nan rs d rel vs ! i = add3_nan (rs ! i) (scale3_nan (d ! i * rel ! i) (vs ! i))"
  by (simp add: propagate_r_nan_def)

lemma length_cutoff_d_abs_nan:
  "length rs = length da \<Longrightarrow> length (cutoff_d_abs_nan cfg det rs da) = length da"
  by (simp add: cutoff_d_abs_nan_def split: option.splits)

lemma length_tf_sample_normal_vectors_nan [simp]:
  "length (tf_sample_normal_vectors_nan ut up v) = length v"
  by (simp add: tf_sample_normal_vectors_nan_def Let_def)

lemma length_tf_scatter_nan [simp]: "length (tf_scatter_nan uc ut up v) = length v"
  by (simp add: tf_scatter_nan_def Let_def)

lemma nth_tf_scatter_nan_defined:
  assumes i: "i < length v" and row: "v ! i = Some w"
    and u: "0 \<le> uc i" "uc i \<le> 1"
    and cross: "cross3 (sin (ut i * pi) * cos (up i * 2 * pi), sin (ut i * pi) * sin (up i * 2 * pi),
                        cos (ut i * pi)) w \<noteq> (0, 0, 0)"
  shows "tf_scatter_nan uc ut up v ! i = Some (tf_scatter uc ut up (map the v) ! i)"
  using assms
  by (simp add: tf_scatter_nan_def tf_scatter_def tf_sample_normal_vectors_nan_def
      tf_sample_normal_vectors_def Let_def nth_directions norm3_eq_zero)

lemma body_nan_sel:
  "pos_r_nan (body_nan cfg det env s) =
     propagate_r_nan (pos_r_nan s)
       (step_d (tf_sample_scatter_nan env (pos_r_nan s)) (clamp_d_abs (d_abs_nan s)))
       (tf_check_for_hits_nan env (pos_r_nan s)
          (step_d (tf_sample_scatter_nan env (pos_r_nan s)) (clamp_d_abs (d_abs_nan s)))
          (dir_v_nan s))
       (dir_v_nan s)"
  "d_abs_nan (body_nan cfg det env s) =
     cutoff_d_abs_nan cfg det (pos_r_nan (body_nan cfg det env s))
       (hit_d_abs
          (tf_check_for_hits_nan env (pos_r_nan s)
             (step_d (tf_sample_scatter_nan env (pos_r_nan s)) (clamp_d_abs (d_abs_nan s)))
             (dir_v_nan s))
          (step_d (tf_sample_scatter_nan env (pos_r_nan s)) (clamp_d_abs (d_abs_nan s)))
          (clamp_d_abs (d_abs_nan s)))"
  "dir_v_nan (body_nan cfg det env s) =
     tf_where (map (\<lambda>x. x > 0) (d_abs_nan (body_nan cfg det env s)))
       (tf_scatter_nan (u_cos_nan env) (u_theta_nan env) (u_phi_nan env) (dir_v_nan s))
       (dir_v_nan s)"
  "time_t_nan (body_nan cfg det env s) =
     map2 (+) (time_t_nan s)
       (map2 (*) (step_d (tf_sample_scatter_nan env (pos_r_nan s)) (clamp_d_abs (d_abs_nan s)))
          (tf_check_for_hits_nan env (pos_r_nan s)
             (step_d (tf_sample_scatter_nan env (pos_r_nan s)) (clamp_d_abs (d_abs_nan s)))
             (dir_v_nan s)))"
  "t_layer_0_nan (body_nan cfg det env s) =
     map2 (+) (t_layer_0_nan s)
       (tf_where (map (\<lambda>p. z_lt p 50) (pos_r_nan (body_nan cfg det env s)))
          (map2 (*) (step_d (tf_sample_scatter_nan env (pos_r_nan s)) (clamp_d_abs (d_abs_nan s)))
             (tf_check_for_hits_nan env (pos_r_nan s)
                (step_d (tf_sample_scatter_nan env (pos_r_nan s)) (clamp_d_abs (d_abs_nan s)))
                (dir_v_nan s)))
          (zeros_like (t_layer_0_nan s)))"
  "t_layer_1_nan (body_nan cfg det env s) =
     map2 (+) (t_layer_1_nan s)
       (tf_where (map (\<lambda>p. z_ge p 50) (pos_r_nan (body_nan cfg det env s)))
          (map2 (*) (step_d (tf_sample_scatter_nan env (pos_r_nan s)) (clamp_d_abs (d_abs_nan s)))
             (tf_check_for_hits_nan env (pos_r_nan s)
                (step_d (tf_sample_scatter_nan env (pos_r_nan s)) (clamp_d_abs (d_abs_nan s)))
                (dir_v_nan s)))
          (zeros_like (t_layer_1_nan s)))"
  by (simp_all add: body_nan_def Let_def)

lemma body_nan_well_shaped:
  assumes "well_shaped_nan n s" and "env_shaped_nan n env"
  shows "well_shaped_nan n (body_nan cfg det env s)"
proof -
  from assms have len: "length (d_abs_nan s) = n" "length (pos_r_nan s) = n"
    "length (dir_v_nan s) = n" "length (time_t_nan s) = n" "length (t_layer_0_nan s) = n"
    "length (t_layer_1_nan s) = n" "length (tf_sample_scatter_nan env (pos_r_nan s)) = n"
    "\<And>d. length (tf_check_for_hits_nan env (pos_r_nan s) d (dir_v_nan s)) = n"
    by (simp_all add: well_shaped_nan_def env_shaped_nan_def)
  have r: "length (pos_r_nan (body_nan cfg det env s)) = n"
    by (simp add: body_nan_sel len)
  have "length (d_abs_nan (body_nan cfg det env s)) = n"
    by (subst body_nan_sel(2), subst length_cutoff_d_abs_nan) (simp_all add: r len)
  then show ?thesis
    unfolding well_shaped_nan_def
    using r by (simp add: body_nan_sel(3-6) len)
qed

lemma iterations_nan_well_shaped:
  assumes "well_shaped_nan n s" and "\<forall>k. env_shaped_nan n (envs k)"
  shows "well_shaped_nan n (iterations_nan cfg det envs m s)"
  using assms by (induction m) (simp_all add: body_nan_well_shaped)

lemma body_nan_lane:
  fixes cfg det env s i
  defines "d \<equiv> step_d (tf_sample_scatter_nan env (pos_r_nan s)) (clamp_d_abs (d_abs_nan s))"
  defines "rel \<equiv> tf_check_for_hits_nan env (pos_r_nan s) d (dir_v_nan s)"
  defines "s' \<equiv> body_nan cfg det env s"
  assumes shaped: "well_shaped_nan n s" "env_shaped_nan n env" and i: "i < n"
  shows body_nan_lane_pos:
      "pos_r_nan s' ! i = add3_nan (pos_r_nan s ! i) (scale3_nan (d ! i * rel ! i) (dir_v_nan s ! i))"
    and body_nan_lane_time: "time_t_nan s' ! i = time_t_nan s ! i + d ! i * rel ! i"
    and body_nan_lane_t0:
      "t_layer_0_nan s' ! i
         = t_layer_0_nan s ! i + (if z_lt (pos_r_nan s' ! i) 50 then d ! i * rel ! i else 0)"
    and body_nan_lane_t1:
      "t_layer_1_nan s' ! i
         = t_layer_1_nan s ! i + (if z_ge (pos_r_nan s' ! i) 50 then d ! i * rel ! i else 0)"
    and body_nan_lane_dir:
      "dir_v_nan s' ! i =
         (if d_abs_nan s' ! i > 0
          then tf_scatter_nan (u_cos_nan env) (u_theta_nan env) (u_phi_nan env) (dir_v_nan s) ! i
          else dir_v_nan s ! i)"
proof -
  from shaped have len: "length (d_abs_nan s) = n" "length (pos_r_nan s) = n"
    "length (dir_v_nan s) = n" "length (time_t_nan s) = n" "length (t_layer_0_nan s) = n"
    "length (t_layer_1_nan s) = n" "length (tf_sample_scatter_nan env (pos_r_nan s)) = n"
    "\<And>d. length (tf_check_for_hits_nan env (pos_r_nan s) d (dir_v_nan s)) = n"
    by (simp_all add: well_shaped_nan_def env_shaped_nan_def)
  have "well_shaped_nan n s'"
    unfolding s'_def using shaped by (rule body_nan_well_shaped)
  then have len': "length (d_abs_nan s') = n" "length (pos_r_nan s') = n"
    by (simp_all add: well_shaped_nan_def)
  have ld: "length d = n"
    by (simp add: d_def len)
  show "pos_r_nan s' ! i = add3_nan (pos_r_nan s ! i) (scale3_nan (d ! i * rel ! i) (dir_v_nan s ! i))"
    unfolding s'_def body_nan_sel(1) d_def [symmetric] rel_def [symmetric]
    using i by (simp add: nth_propagate_r_nan len ld rel_def)
  show "time_t_nan s' ! i = time_t_nan s ! i + d ! i * rel ! i"
    unfolding s'_def body_nan_sel(4) d_def [symmetric] rel_def [symmetric]
    using i by (simp add: len ld rel_def)
  show "t_layer_0_nan s' ! i
         = t_layer_0_nan s ! i + (if z_lt (pos_r_nan s' ! i) 50 then d ! i * rel ! i else 0)"
    using i len'(2) unfolding s'_def
    by (subst body_nan_sel(5)) (simp add: len ld nth_tf_where rel_def d_def [symmetric])
  show "t_layer_1_nan s' ! i
         = t_layer_1_nan s ! i + (if z_ge (pos_r_nan s' ! i) 50 then d ! i * rel ! i else 0)"
    using i len'(2) unfolding s'_def
    by (subst body_nan_sel(6)) (simp add: len ld nth_tf_where rel_def d_def [symmetric])
  show "dir_v_nan s' ! i =
         (if d_abs_nan s' ! i > 0
          then tf_scatter_nan (u_cos_nan env) (u_theta_nan env) (u_phi_nan env) (dir_v_nan s) ! i
          else dir_v_nan s ! i)"
    using i len'(1) unfolding s'_def
    by (subst body_nan_sel(3)) (simp add: nth_tf_where len)
qed

lemma well_shaped_init_vars_nan:
  "length (absorption r0) = n \<Longrightarrow> length r0 = n \<Longrightarrow> length v0 = n \<Longrightarrow>
   well_shaped_nan n (init_vars_nan absorption r0 v0)"
  by (simp add: well_shaped_nan_def init_vars_nan_def zeros_def)

lemma init_vars_nan_sel [simp]:
  "d_abs_nan (init_vars_nan absorption r0 v0) = absorption r0"
  "pos_r_nan (init_vars_nan absorption r0 v0) = map Some r0"
  "dir_v_nan (init_vars_nan absorption r0 v0) = map Some v0"
  "time_t_nan (init_vars_nan absorption r0 v0) = zeros (length r0)"
  "t_layer_0_nan (init_vars_nan absorption r0 v0) = zeros (length r0)"
  "t_layer_1_nan (init_vars_nan absorption r0 v0) = zeros (length r0)"
  by (simp_all add: init_vars_nan_def)

lemma partition_step_nan:
  assumes shaped: "well_shaped_nan n s" "env_shaped_nan n env" and i: "i < n"
    and inv: "t_layer_0_nan s ! i + t_layer_1_nan s ! i = time_t_nan s ! i"
    and pos: "pos_r_nan (body_nan cfg det env s) ! i = Some p"
  shows "t_layer_0_nan (body_nan cfg det env s) ! i + t_layer_1_nan (body_nan cfg det env s) ! i
           = time_t_nan (body_nan cfg det env s) ! i"
  using body_nan_lane_t0 [OF shaped i, of cfg det] body_nan_lane_t1 [OF shaped i, of cfg det]
    body_nan_lane_time [OF shaped i, of cfg det] inv
  by (simp add: pos z_lt_def z_ge_def)

lemma rows_defined:
  fixes cfg det absorption envs r0 v0 n m i
  defines "s0 \<equiv> init_vars_nan absorption r0 v0"
  assumes len: "length r0 = n" "length v0 = n" "length (absorption r0) = n"
    and shaped: "\<forall>k. env_shaped_nan n (envs k)" and i: "i < n"
    and defined: "\<forall>k<m. \<forall>w. dir_v_nan (iterations_nan cfg det envs k s0) ! i = Some w \<and>
                   0 < d_abs_nan (iterations_nan cfg det envs (Suc k) s0) ! i
                   \<longrightarrow> scatter_defined (envs k) i w"
  shows "k \<le> m \<Longrightarrow>
         (\<exists>p. pos_r_nan (iterations_nan cfg det envs k s0) ! i = Some p) \<and>
         (\<exists>w. dir_v_nan (iterations_nan cfg det envs k s0) ! i = Some w) \<and>
         t_layer_0_nan (iterations_nan cfg det envs k s0) ! i
           + t_layer_1_nan (iterations_nan cfg det envs k s0) ! i
           = time_t_nan (iterations_nan cfg det envs k s0) ! i"
proof (induction k)
  case 0
  show ?case
    using i len by (simp add: s0_def del: split_paired_Ex)
next
  case (Suc k)
  let ?s = "iterations_nan cfg det envs k s0"
  let ?s' = "body_nan cfg det (envs k) ?s"
  have ws: "well_shaped_nan n ?s"
    unfolding s0_def using len shaped
    by (intro iterations_nan_well_shaped well_shaped_init_vars_nan)
  have es: "env_shaped_nan n (envs k)"
    using shaped by simp
  from Suc obtain p w where p: "pos_r_nan ?s ! i = Some p" and w: "dir_v_nan ?s ! i = Some w"
    and part: "t_layer_0_nan ?s ! i + t_layer_1_nan ?s ! i = time_t_nan ?s ! i"
    by auto
  have li: "i < length (dir_v_nan ?s)"
    using ws i by (simp add: well_shaped_nan_def)
  obtain p' where p': "pos_r_nan ?s' ! i = Some p'"
    using body_nan_lane_pos [OF ws es i, of cfg det] by (simp add: p w)
  have "\<exists>w'. dir_v_nan ?s' ! i = Some w'"
  proof (cases "0 < d_abs_nan ?s' ! i")
    case True
    have "k < m"
      using Suc.prems by simp
    with defined have "dir_v_nan ?s ! i = Some w \<and> 0 < d_abs_nan (iterations_nan cfg det envs (Suc k) s0) ! i
        \<longrightarrow> scatter_defined (envs k) i w"
      by blast
    with True w have "scatter_defined (envs k) i w"
      by simp
    then have "tf_scatter_nan (u_cos_nan (envs k)) (u_theta_nan (envs k)) (u_phi_nan (envs k))
                 (dir_v_nan ?s) ! i \<noteq> None"
      using nth_tf_scatter_nan_defined [OF li w] by (simp add: scatter_defined_def)
    with True show ?thesis
      using body_nan_lane_dir [OF ws es i, of cfg det] by auto
  next
    case False
    then show ?thesis
      using body_nan_lane_dir [OF ws es i, of cfg det] w by (simp del: split_paired_Ex)
  qed
  moreover have "t_layer_0_nan ?s' ! i + t_layer_1_nan ?s' ! i = time_t_nan ?s' ! i"
    using ws es i part p' by (rule partition_step_nan)
  ultimately show ?case
    using p' by (simp del: split_paired_Ex)
qed

lemma env_shaped_mock_nan [simp]: "env_shaped_nan n (mock_envs_nan ds hf uc ut up k)"
  by (simp add: env_shaped_nan_def mock_envs_nan_def)

lemmas body_nan_eval =
  body_nan_def Let_def clamp_d_abs_def step_d_def hit_d_abs_def propagate_r_nan_def
  cutoff_d_abs_nan_def tf_where_def zeros_like_def tf_scatter_nan_def
  tf_sample_normal_vectors_nan_def sample_def directions_def mock_envs_nan_def
  const_draw_def z_lt_def z_ge_def

text \<open>Where no scattering that is selected is NaN, the two embeddings of the body agree.\<close>

lemma propagate_r_nan_Some:
  "propagate_r_nan (map Some rs) d rel (map Some vs) = map Some (propagate_r rs d rel vs)"
  by (rule nth_equalityI) (simp_all add: nth_propagate_r_nan nth_propagate_r)

lemma cutoff_d_abs_nan_Some:
  "cutoff_d_abs_nan cfg det (map Some rs) da = cutoff_d_abs cfg det rs da"
  by (auto simp: cutoff_d_abs_nan_def cutoff_d_abs_def comp_def split: option.splits)

lemma real_env_sel [simp]:
  "tf_sample_scatter (real_env env) rs = tf_sample_scatter_nan env (map Some rs)"
  "tf_check_for_hits (real_env env) rs d vs
     = tf_check_for_hits_nan env (map Some rs) d (map Some vs)"
  "u_cos (real_env env) = u_cos_nan env"
  "u_theta (real_env env) = u_theta_nan env"
  "u_phi (real_env env) = u_phi_nan env"
  by (simp_all add: real_env_def)

lemma body_nan_agrees:
  assumes shaped: "well_shaped n s" "env_shaped_nan n env"
    and defined: "\<forall>i<n. 0 < d_abs (body cfg det (real_env env) s) ! i
                    \<longrightarrow> scatter_defined env i (dir_v s ! i)"
  shows "body_nan cfg det env (lift_vars s) = lift_vars (body cfg det (real_env env) s)"
proof -
  let ?b = "body cfg det (real_env env) s"
  have es: "env_shaped n (real_env env)"
    using shaped(2) by (simp add: env_shaped_def env_shaped_nan_def)
  have ws: "well_shaped n ?b"
    using shaped(1) es by (rule body_well_shaped)
  have len: "length (dir_v s) = n" "length (d_abs ?b) = n"
    using shaped(1) ws by (simp_all add: well_shaped_def)
  have dir: "tf_where (map (\<lambda>x. 0 < x) (d_abs ?b))
               (tf_scatter_nan (u_cos_nan env) (u_theta_nan env) (u_phi_nan env) (map Some (dir_v s)))
               (map Some (dir_v s))
             = map Some (dir_v ?b)"
  proof (rule nth_equalityI)
    show "length (tf_where (map (\<lambda>x. 0 < x) (d_abs ?b))
               (tf_scatter_nan (u_cos_nan env) (u_theta_nan env) (u_phi_nan env) (map Some (dir_v s)))
               (map Some (dir_v s))) = length (map Some (dir_v ?b))"
      using ws by (simp add: len well_shaped_def)
  next
    fix i
    assume "i < length (tf_where (map (\<lambda>x. 0 < x) (d_abs ?b))
               (tf_scatter_nan (u_cos_nan env) (u_theta_nan env) (u_phi_nan env) (map Some (dir_v s)))
               (map Some (dir_v s)))"
    then have i: "i < n"
      by (simp add: len)
    have r: "dir_v ?b ! i = (if 0 < d_abs ?b ! i
               then tf_scatter (u_cos (real_env env)) (u_theta (real_env env)) (u_phi (real_env env))
                      (dir_v s) ! i
               else dir_v s ! i)"
      using shaped(1) es i by (rule body_lane_dir)
    have "tf_scatter_nan (u_cos_nan env) (u_theta_nan env) (u_phi_nan env) (map Some (dir_v s)) ! i
            = Some (tf_scatter (u_cos_nan env) (u_theta_nan env) (u_phi_nan env) (dir_v s) ! i)"
      if "0 < d_abs ?b ! i"
    proof -
      from that defined i have "scatter_defined env i (dir_v s ! i)"
        by simp
      then show ?thesis
        using nth_tf_scatter_nan_defined [of i "map Some (dir_v s)" "dir_v s ! i"
            "u_cos_nan env" "u_theta_nan env" "u_phi_nan env"] i len
        by (simp add: scatter_defined_def comp_def)
    qed
    then show "tf_where (map (\<lambda>x. 0 < x) (d_abs ?b))
               (tf_scatter_nan (u_cos_nan env) (u_theta_nan env) (u_phi_nan env) (map Some (dir_v s)))
               (map Some (dir_v s)) ! i = map Some (dir_v ?b) ! i"
      using i ws by (simp add: nth_tf_where len r well_shaped_def)
  qed
  have sel: "pos_r_nan (lift_vars s) = map Some (pos_r s)" "dir_v_nan (lift_vars s) = map Some (dir_v s)"
    "d_abs_nan (lift_vars s) = d_abs s" "time_t_nan (lift_vars s) = time_t s"
    "t_layer_0_nan (lift_vars s) = t_layer_0 s" "t_layer_1_nan (lift_vars s) = t_layer_1 s"
    by (simp_all add: lift_vars_def)
  note env = real_env_sel
  have pos: "pos_r_nan (body_nan cfg det env (lift_vars s)) = map Some (pos_r ?b)"
    by (simp add: body_nan_sel(1) body_sel(2) sel env propagate_r_nan_Some)
  have dabs: "d_abs_nan (body_nan cfg det env (lift_vars s)) = d_abs ?b"
    by (subst body_nan_sel(2), subst body_sel(1))
      (simp add: pos sel env cutoff_d_abs_nan_Some)
  have "dir_v_nan (body_nan cfg det env (lift_vars s)) = map Some (dir_v ?b)"
    by (subst body_nan_sel(3)) (simp add: dabs sel dir)
  moreover have "time_t_nan (body_nan cfg det env (lift_vars s)) = time_t ?b"
    by (simp add: body_nan_sel(4) body_sel(4) sel env)
  moreover have "t_layer_0_nan (body_nan cfg det env (lift_vars s)) = t_layer_0 ?b"
    by (subst body_nan_sel(5), subst body_sel(5))
      (simp add: pos sel env z_lt_def comp_def)
  moreover have "t_layer_1_nan (body_nan cfg det env (lift_vars s)) = t_layer_1 ?b"
    by (subst body_nan_sel(6), subst body_sel(6))
      (simp add: pos sel env z_ge_def comp_def)
  ultimately show ?thesis
    using pos dabs by (simp add: lift_vars_def)
qed

section \<open>Claims about the initialisation\<close>

lemma int_true_div_tie:
  assumes "real b / real c = 2 ^ 53 + 1"
  shows "int_true_div b c = Inr (2 ^ 53)"
proof -
  have c: "c \<noteq> 0"
  proof
    assume "c = 0"
    with assms show False by simp
  qed
  have b: "b \<noteq> 0"
  proof
    assume "b = 0"
    with assms show False by simp
  qed
  note nz = c b
  have "\<not> (2::real) ^ 1024 \<le> 2 ^ 53"
    by simp
  moreover have "nat \<lfloor>(2::real) ^ 53\<rfloor> = 2 ^ 53"
    by (metis floor_of_nat nat_int of_nat_numeral of_nat_power)
  ultimately show ?thesis
    unfolding int_true_div_def Let_def assms float64_tie using nz by (simp only: if_False)
qed

text \<open>
  Claim C9 (cascade replication count), as stated for every batch size \<open>B\<close> that the
  number \<open>C\<close> of origins divides, fails for large quotients: \<^verbatim>\<open>int(B/C)\<close> goes through a
  double. With one origin and \<open>B = 2 ^ 53 + 1\<close> the quotient is rounded to \<open>2 ^ 53\<close>, and
  the position batch has \<open>2 ^ 53\<close> rows, not \<open>B\<close>.
\<close>

theorem cascade_replication_count_counterexample:
  "map_sum id (length \<circ> fst)
     (tf_init_cascades \<lparr>BATCH_SIZE = 2 ^ 53 + 1, CASCADES_PER_STEP = 1, CUTOFF_RADIUS = None\<rparr>
        [(0, 0, 0)] (const_draw 0) (const_draw 0)) = Inr (2 ^ 53) \<and>
   (2::nat) ^ 53 \<noteq> 2 ^ 53 + 1"
proof -
  have "real (2 ^ 53 + 1) / real 1 = 2 ^ 53 + 1"
    by simp
  then have "int_true_div (2 ^ 53 + 1) 1 = Inr (2 ^ 53)"
    by (rule int_true_div_tie)
  then show ?thesis
    by (simp add: tf_init_cascades_def Let_def length_tile)
qed

text \<open>
  Claim C9, amended. For \<open>C\<close> pairwise different cascade origins and a batch size \<open>B\<close>
  that \<open>C\<close> divides with a quotient of at most \<open>2 ^ 53\<close>, \<^verbatim>\<open>tf_init_cascades\<close> returns a
  position batch of exactly \<open>B\<close> rows, every row is one of the origins, and every origin is
  the initial position of exactly \<open>B div C\<close> photons. (When an origin occurs several times
  among the cascades, lemma \<open>count_tile\<close> gives \<open>B div C\<close> times its number of
  occurrences.)
\<close>

theorem cascade_replication_count:
  assumes C: "0 < CASCADES_PER_STEP cfg"
    and dvd: "CASCADES_PER_STEP cfg dvd BATCH_SIZE cfg"
    and len: "length r_cascades = CASCADES_PER_STEP cfg"
    and dist: "distinct r_cascades"
    and bound: "BATCH_SIZE cfg div CASCADES_PER_STEP cfg \<le> 2 ^ 53"
  shows "\<exists>r0 v0. tf_init_cascades cfg r_cascades ut up = Inr (r0, v0) \<and>
           length r0 = BATCH_SIZE cfg \<and>
           (\<forall>i < BATCH_SIZE cfg. r0 ! i \<in> set r_cascades) \<and>
           (\<forall>p \<in> set r_cascades.
              card {i. i < BATCH_SIZE cfg \<and> r0 ! i = p}
                = BATCH_SIZE cfg div CASCADES_PER_STEP cfg)"
proof -
  define k where "k = BATCH_SIZE cfg div CASCADES_PER_STEP cfg"
  define r0 where "r0 = tile r_cascades k"
  have "int_true_div (BATCH_SIZE cfg) (CASCADES_PER_STEP cfg) = Inr k"
    unfolding k_def using C dvd bound by (rule int_true_div_exact)
  then obtain v0 where init: "tf_init_cascades cfg r_cascades ut up = Inr (r0, v0)"
    by (simp add: tf_init_cascades_def Let_def r0_def)
  have l0: "length r0 = BATCH_SIZE cfg"
    using dvd by (simp add: r0_def length_tile len k_def)
  have mem: "r0 ! i \<in> set r_cascades" if "i < BATCH_SIZE cfg" for i
  proof -
    have "r0 ! i \<in> set r0"
      using that l0 by simp
    then show ?thesis
      using set_tile [of r_cascades k] by (auto simp: r0_def)
  qed
  have cnt: "card {i. i < BATCH_SIZE cfg \<and> r0 ! i = p} = k" if "p \<in> set r_cascades" for p
  proof -
    have "{i. i < length r0 \<and> r0 ! i = p} = {i. i < length r0 \<and> p = r0 ! i}"
      by auto
    then have "card {i. i < length r0 \<and> r0 ! i = p} = length (filter ((=) p) r0)"
      by (simp add: length_filter_conv_card)
    also have "\<dots> = count_list r0 p"
      by (simp add: count_list_eq_length_filter)
    also have "\<dots> = k * count_list r_cascades p"
      by (simp add: r0_def count_tile)
    also have "\<dots> = k"
      using dist that by (simp add: count_list_distinct)
    finally show ?thesis
      by (simp add: l0)
  qed
  show ?thesis
    using init l0 mem cnt unfolding k_def by blast
qed

text \<open>Four photons and the two origins \<open>(0, 0, 0)\<close> and \<open>(1, 2, 3)\<close>: two photons each.\<close>

theorem cascade_replication_count_witness:
  "0 < CASCADES_PER_STEP \<lparr>BATCH_SIZE = 4, CASCADES_PER_STEP = 2, CUTOFF_RADIUS = None\<rparr> \<and>
   CASCADES_PER_STEP \<lparr>BATCH_SIZE = 4, CASCADES_PER_STEP = 2, CUTOFF_RADIUS = None\<rparr>
     dvd BATCH_SIZE \<lparr>BATCH_SIZE = 4, CASCADES_PER_STEP = 2, CUTOFF_RADIUS = None\<rparr> \<and>
   distinct [(0, 0, 0), (1, 2, 3) :: vec3] \<and>
   BATCH_SIZE \<lparr>BATCH_SIZE = 4, CASCADES_PER_STEP = 2, CUTOFF_RADIUS = None\<rparr>
     div CASCADES_PER_STEP \<lparr>BATCH_SIZE = 4, CASCADES_PER_STEP = 2, CUTOFF_RADIUS = None\<rparr>
     \<le> 2 ^ 53 \<and>
   (\<exists>r0 v0. tf_init_cascades \<lparr>BATCH_SIZE = 4, CASCADES_PER_STEP = 2, CUTOFF_RADIUS = None\<rparr>
              [(0, 0, 0), (1, 2, 3)] (\<lambda>_. 0) (\<lambda>_. 0) = Inr (r0, v0) \<and>
            length r0 = 4 \<and>
            card {i. i < 4 \<and> r0 ! i = (0, 0, 0)} = 2 \<and>
            card {i. i < 4 \<and> r0 ! i = (1, 2, 3)} = 2)"
proof -
  let ?cfg = "\<lparr>BATCH_SIZE = 4, CASCADES_PER_STEP = 2, CUTOFF_RADIUS = None\<rparr>"
  let ?rc = "[(0, 0, 0), (1, 2, 3) :: vec3]"
  have h: "0 < CASCADES_PER_STEP ?cfg" "CASCADES_PER_STEP ?cfg dvd BATCH_SIZE ?cfg"
    "length ?rc = CASCADES_PER_STEP ?cfg" "distinct ?rc"
    "BATCH_SIZE ?cfg div CASCADES_PER_STEP ?cfg \<le> 2 ^ 53"
    by simp_all
  from cascade_replication_count [OF h, of "\<lambda>_. 0" "\<lambda>_. 0"]
  show ?thesis
    using h by simp blast
qed

text \<open>
  Claim C10 (round-robin cascade layout), as stated for every photon index below \<open>B\<close>,
  fails for large quotients for the same reason. With two origins and \<open>B = 2 ^ 54 + 2\<close>
  the quotient \<open>2 ^ 53 + 1\<close> is rounded to \<open>2 ^ 53\<close>, and the position batch has
  \<open>2 ^ 54\<close> rows: the photon indices \<open>2 ^ 54\<close> and \<open>2 ^ 54 + 1\<close> are below \<open>B\<close> and have no
  initial position.
\<close>

theorem round_robin_layout_counterexample:
  "map_sum id (length \<circ> fst)
     (tf_init_cascades \<lparr>BATCH_SIZE = 2 ^ 54 + 2, CASCADES_PER_STEP = 2, CUTOFF_RADIUS = None\<rparr>
        [(0, 0, 0), (1, 2, 3)] (const_draw 0) (const_draw 0)) = Inr (2 ^ 54) \<and>
   (2::nat) ^ 54 < 2 ^ 54 + 2"
proof -
  have "real (2 ^ 54 + 2) / real 2 = 2 ^ 53 + 1"
    by simp
  then have "int_true_div (2 ^ 54 + 2) 2 = Inr (2 ^ 53)"
    by (rule int_true_div_tie)
  then show ?thesis
    by (simp add: tf_init_cascades_def Let_def length_tile)
qed

text \<open>
  Claim C10, amended. The position batch tiles the whole array of origins, so for \<open>C\<close>
  origins and a batch size \<open>B\<close> that \<open>C\<close> divides with a quotient of at most \<open>2 ^ 53\<close>, the
  initial position of photon \<open>i < B\<close> is origin number \<open>i mod C\<close>: the photons of one
  cascade are the indices of one residue class modulo \<open>C\<close>, not a block of consecutive
  indices.
\<close>

theorem round_robin_layout:
  assumes C: "0 < CASCADES_PER_STEP cfg"
    and dvd: "CASCADES_PER_STEP cfg dvd BATCH_SIZE cfg"
    and len: "length r_cascades = CASCADES_PER_STEP cfg"
    and bound: "BATCH_SIZE cfg div CASCADES_PER_STEP cfg \<le> 2 ^ 53"
  shows "\<exists>r0 v0. tf_init_cascades cfg r_cascades ut up = Inr (r0, v0) \<and>
           length r0 = BATCH_SIZE cfg \<and>
           (\<forall>i < BATCH_SIZE cfg. r0 ! i = r_cascades ! (i mod CASCADES_PER_STEP cfg))"
proof -
  define k where "k = BATCH_SIZE cfg div CASCADES_PER_STEP cfg"
  have kC: "k * length r_cascades = BATCH_SIZE cfg"
    using dvd by (simp add: len k_def)
  have "int_true_div (BATCH_SIZE cfg) (CASCADES_PER_STEP cfg) = Inr k"
    unfolding k_def using C dvd bound by (rule int_true_div_exact)
  then obtain v0 where init: "tf_init_cascades cfg r_cascades ut up = Inr (tile r_cascades k, v0)"
    by (simp add: tf_init_cascades_def Let_def)
  have "tile r_cascades k ! i = r_cascades ! (i mod CASCADES_PER_STEP cfg)"
    if "i < BATCH_SIZE cfg" for i
    using that nth_tile [of i k r_cascades] kC by (simp add: len)
  then show ?thesis
    using init kC by (auto simp: length_tile)
qed

text \<open>Four photons and two origins: the origins alternate along the batch.\<close>

theorem round_robin_layout_witness:
  "0 < CASCADES_PER_STEP \<lparr>BATCH_SIZE = 4, CASCADES_PER_STEP = 2, CUTOFF_RADIUS = None\<rparr> \<and>
   CASCADES_PER_STEP \<lparr>BATCH_SIZE = 4, CASCADES_PER_STEP = 2, CUTOFF_RADIUS = None\<rparr>
     dvd BATCH_SIZE \<lparr>BATCH_SIZE = 4, CASCADES_PER_STEP = 2, CUTOFF_RADIUS = None\<rparr> \<and>
   BATCH_SIZE \<lparr>BATCH_SIZE = 4, CASCADES_PER_STEP = 2, CUTOFF_RADIUS = None\<rparr>
     div CASCADES_PER_STEP \<lparr>BATCH_SIZE = 4, CASCADES_PER_STEP = 2, CUTOFF_RADIUS = None\<rparr>
     \<le> 2 ^ 53 \<and>
   (\<exists>r0 v0. tf_init_cascades \<lparr>BATCH_SIZE = 4, CASCADES_PER_STEP = 2, CUTOFF_RADIUS = None\<rparr>
              [(0, 0, 0), (1, 2, 3)] (\<lambda>_. 0) (\<lambda>_. 0) = Inr (r0, v0) \<and>
            r0 ! 0 = (0, 0, 0) \<and> r0 ! 1 = (1, 2, 3) \<and> r0 ! 2 = (0, 0, 0) \<and> r0 ! 3 = (1, 2, 3))"
proof -
  let ?cfg = "\<lparr>BATCH_SIZE = 4, CASCADES_PER_STEP = 2, CUTOFF_RADIUS = None\<rparr>"
  let ?rc = "[(0, 0, 0), (1, 2, 3) :: vec3]"
  have h: "0 < CASCADES_PER_STEP ?cfg" "CASCADES_PER_STEP ?cfg dvd BATCH_SIZE ?cfg"
    "length ?rc = CASCADES_PER_STEP ?cfg"
    "BATCH_SIZE ?cfg div CASCADES_PER_STEP ?cfg \<le> 2 ^ 53"
    by simp_all
  from round_robin_layout [OF h, of "\<lambda>_. 0" "\<lambda>_. 0"]
  obtain r0 v0 where r: "tf_init_cascades ?cfg ?rc (\<lambda>_. 0) (\<lambda>_. 0) = Inr (r0, v0)"
    and n: "\<forall>i < BATCH_SIZE ?cfg. r0 ! i = ?rc ! (i mod CASCADES_PER_STEP ?cfg)"
    by blast
  have "r0 ! 0 = (0, 0, 0)" "r0 ! 1 = (1, 2, 3)" "r0 ! 2 = (0, 0, 0)" "r0 ! 3 = (1, 2, 3)"
    using n [rule_format, of 0] n [rule_format, of 1] n [rule_format, of 2]
      n [rule_format, of 3]
    by simp_all
  then show ?thesis
    using r h by blast
qed

section \<open>Claims about the loop body\<close>

text \<open>
  Claim C1 (per-iteration transition). For every photon \<open>i\<close> of a well-shaped batch, with
  \<open>d_scat\<close> the scatter distances returned by the ice, the iteration clamps the remaining
  absorption distance to \<open>max (d_abs ! i) 0\<close>, takes the step \<open>d ! i\<close> as the minimum of
  the scatter distance and the clamped absorption distance, and with the detector's answer
  \<open>hit_fraction\<close> for that step sets the absorption distance to 0 if
  \<open>hit_fraction ! i < 1\<close> and to the clamped distance minus \<open>d ! i\<close> otherwise (the
  assignment of line 126; it is what the iteration returns when no cutoff is configured,
  and the argument of the cutoff otherwise), and moves the position by
  \<open>d ! i * hit_fraction ! i\<close> times the direction. No assumption on the range of
  \<open>hit_fraction\<close> is needed.
\<close>

theorem iteration_transition:
  fixes cfg det env s i
  defines "d_scat \<equiv> tf_sample_scatter env (pos_r s)"
  defines "d_abs1 \<equiv> clamp_d_abs (d_abs s)"
  defines "d \<equiv> step_d d_scat d_abs1"
  defines "hit_fraction \<equiv> tf_check_for_hits env (pos_r s) d (dir_v s)"
  defines "s' \<equiv> body cfg det env s"
  assumes shaped: "well_shaped n s" "env_shaped n env" and i: "i < n"
  shows "d_abs1 ! i = max (d_abs s ! i) 0 \<and>
         d ! i = min (d_scat ! i) (d_abs1 ! i) \<and>
         hit_d_abs hit_fraction d d_abs1 ! i
           = (if hit_fraction ! i < 1 then 0 else d_abs1 ! i - d ! i) \<and>
         d_abs s' = cutoff_d_abs cfg det (pos_r s') (hit_d_abs hit_fraction d d_abs1) \<and>
         (CUTOFF_RADIUS cfg = None \<or> CUTOFF_RADIUS cfg = Some 0 \<longrightarrow>
            d_abs s' ! i = (if hit_fraction ! i < 1 then 0 else d_abs1 ! i - d ! i)) \<and>
         pos_r s' ! i = add3 (pos_r s ! i) (scale3 (d ! i * hit_fraction ! i) (dir_v s ! i))"
proof -
  from shaped have len: "length (d_abs s) = n" "length d_scat = n"
    by (simp_all add: well_shaped_def env_shaped_def d_scat_def)
  have a: "d_abs1 ! i = max (d_abs s ! i) 0"
    using i by (simp add: d_abs1_def nth_clamp_d_abs len)
  have b: "d ! i = min (d_scat ! i) (d_abs1 ! i)"
    using i by (simp add: d_def nth_step_d len d_abs1_def)
  have c: "hit_d_abs hit_fraction d d_abs1 ! i
             = (if hit_fraction ! i < 1 then 0 else d_abs1 ! i - d ! i)"
    using body_lane_hit [OF shaped i] a b
    by (simp add: hit_fraction_def d_def d_scat_def d_abs1_def)
  have e: "d_abs s' = cutoff_d_abs cfg det (pos_r s') (hit_d_abs hit_fraction d d_abs1)"
    unfolding s'_def hit_fraction_def d_def d_scat_def d_abs1_def by (rule body_sel(1))
  have f: "d_abs s' ! i = (if hit_fraction ! i < 1 then 0 else d_abs1 ! i - d ! i)"
    if "CUTOFF_RADIUS cfg = None \<or> CUTOFF_RADIUS cfg = Some 0"
    using body_lane_d_abs_off [OF shaped i that] a b
    by (simp add: hit_fraction_def d_def d_scat_def d_abs1_def s'_def)
  have g: "pos_r s' ! i = add3 (pos_r s ! i) (scale3 (d ! i * hit_fraction ! i) (dir_v s ! i))"
    using body_lane_pos [OF shaped i] a b
    by (simp add: hit_fraction_def d_def d_scat_def d_abs1_def s'_def)
  from a b c e f g show ?thesis
    by blast
qed

text \<open>
  One photon with absorption distance 5 at the origin, flying along \<open>z\<close>, scatter distance
  3 and no hit: the step is 3, the absorption distance left is 2, the position \<open>(0, 0, 3)\<close>.
\<close>

theorem iteration_transition_witness:
  "well_shaped 1 (single 5 (0, 0, 0) (0, 0, 1) 0 0 0) \<and>
   env_shaped 1 (mock_env 3 1) \<and>
   clamp_d_abs [5] ! 0 = 5 \<and>
   step_d [3] [5] ! 0 = 3 \<and>
   hit_d_abs [1] [3] [5] ! 0 = 2 \<and>
   d_abs (body \<lparr>BATCH_SIZE = 1, CASCADES_PER_STEP = 1, CUTOFF_RADIUS = None\<rparr>
            \<lparr>l_x = 1, l_y = 1, l_z = 1\<rparr> (mock_env 3 1)
            (single 5 (0, 0, 0) (0, 0, 1) 0 0 0)) ! 0 = 2 \<and>
   pos_r (body \<lparr>BATCH_SIZE = 1, CASCADES_PER_STEP = 1, CUTOFF_RADIUS = None\<rparr>
            \<lparr>l_x = 1, l_y = 1, l_z = 1\<rparr> (mock_env 3 1)
            (single 5 (0, 0, 0) (0, 0, 1) 0 0 0)) ! 0 = (0, 0, 3)"
proof -
  have h: "well_shaped 1 (single 5 (0, 0, 0) (0, 0, 1) 0 0 0)" "env_shaped 1 (mock_env 3 1)"
    "(0::nat) < 1"
    by simp_all
  from iteration_transition [OF h,
      of "\<lparr>BATCH_SIZE = 1, CASCADES_PER_STEP = 1, CUTOFF_RADIUS = None\<rparr>"
         "\<lparr>l_x = 1, l_y = 1, l_z = 1\<rparr>"]
  show ?thesis
    using h(1,2) by (simp add: clamp_d_abs_def step_d_def hit_d_abs_def tf_where_def zeros_like_def cutoff_d_abs_def)
qed

text \<open>
  Claim C2 (freezing idempotence). A photon whose \<open>d_abs\<close> is 0 at the start of an
  iteration in which the ice returns a positive scatter distance for it leaves the
  iteration with its \<open>d_abs\<close>, position, direction, elapsed time and both layer times
  unchanged; hence, when the scatter distance of the photon is positive in every iteration,
  its row is the same after any number of iterations. The hit fraction may be anything.
\<close>

theorem frozen_photon_unchanged:
  assumes shaped: "well_shaped n s" "\<forall>k. env_shaped n (envs k)" and i: "i < n"
    and frozen: "d_abs s ! i = 0"
  shows "(0 < tf_sample_scatter (envs 0) (pos_r s) ! i \<longrightarrow>
            lane (body cfg det (envs 0) s) i = lane s i) \<and>
         ((\<forall>m. 0 < tf_sample_scatter (envs m) (pos_r (iterations cfg det envs m s)) ! i) \<longrightarrow>
            (\<forall>m. lane (iterations cfg det envs m s) i = lane s i))"
proof (intro conjI impI allI)
  assume scat0: "0 < tf_sample_scatter (envs 0) (pos_r s) ! i"
  show "lane (body cfg det (envs 0) s) i = lane s i"
    by (rule frozen_step [OF shaped(1) shaped(2) [rule_format] i frozen scat0])
next
  fix m
  assume scat: "\<forall>m. 0 < tf_sample_scatter (envs m) (pos_r (iterations cfg det envs m s)) ! i"
  show "lane (iterations cfg det envs m s) i = lane s i"
  proof (induction m)
    case 0
    show ?case by simp
  next
    case (Suc m)
    let ?sm = "iterations cfg det envs m s"
    have ws: "well_shaped n ?sm"
      using shaped by (rule iterations_well_shaped)
    have "d_abs ?sm ! i = d_abs s ! i"
      using Suc unfolding lane_def by (rule Pair_inject)
    with frozen have fm: "d_abs ?sm ! i = 0"
      by (simp only:)
    have "lane (body cfg det (envs m) ?sm) i = lane ?sm i"
      by (rule frozen_step [OF ws shaped(2) [rule_format] i fm scat [rule_format]])
    with Suc show ?case
      by (simp only: iterations.simps)
  qed
qed

text \<open>
  A frozen photon at \<open>(1, 2, 3)\<close> with times 7, 3 and 4 under a medium with scatter distance
  10 and a cutoff in force.
\<close>

theorem frozen_photon_unchanged_witness:
  "well_shaped 1 (single 0 (1, 2, 3) (0, 0, 1) 7 3 4) \<and>
   d_abs (single 0 (1, 2, 3) (0, 0, 1) 7 3 4) ! 0 = 0 \<and>
   lane (body \<lparr>BATCH_SIZE = 1, CASCADES_PER_STEP = 1, CUTOFF_RADIUS = Some 2\<rparr>
           \<lparr>l_x = 1, l_y = 1, l_z = 1\<rparr> (mock_env 10 1)
           (single 0 (1, 2, 3) (0, 0, 1) 7 3 4)) 0
     = (0, (1, 2, 3), (0, 0, 1), 7, 3, 4) \<and>
   (\<forall>m. lane (iterations \<lparr>BATCH_SIZE = 1, CASCADES_PER_STEP = 1, CUTOFF_RADIUS = Some 2\<rparr>
                \<lparr>l_x = 1, l_y = 1, l_z = 1\<rparr> (\<lambda>_. mock_env 10 1) m
                (single 0 (1, 2, 3) (0, 0, 1) 7 3 4)) 0
          = (0, (1, 2, 3), (0, 0, 1), 7, 3, 4))"
proof -
  let ?cfg = "\<lparr>BATCH_SIZE = 1, CASCADES_PER_STEP = 1, CUTOFF_RADIUS = Some 2\<rparr>"
  let ?det = "\<lparr>l_x = 1, l_y = 1, l_z = 1\<rparr>"
  let ?s = "single 0 (1, 2, 3) (0, 0, 1) 7 3 4"
  have h: "well_shaped 1 ?s" "\<forall>k::nat. env_shaped 1 (mock_env 10 1)" "(0::nat) < 1"
    "d_abs ?s ! 0 = 0"
    by simp_all
  have len: "length (pos_r (iterations ?cfg ?det (\<lambda>_. mock_env 10 1) m ?s)) = 1" for m
    using iterations_well_shaped [OF h(1), of "\<lambda>_. mock_env 10 1" ?cfg ?det m]
    by (simp add: well_shaped_def)
  have scat: "\<forall>m. 0 < tf_sample_scatter (mock_env 10 1)
                      (pos_r (iterations ?cfg ?det (\<lambda>_. mock_env 10 1) m ?s)) ! 0"
  proof
    fix m
    have "0 < length (pos_r (iterations ?cfg ?det (\<lambda>_. mock_env 10 1) m ?s))"
      by (simp only: len)
    then show "0 < tf_sample_scatter (mock_env 10 1)
                      (pos_r (iterations ?cfg ?det (\<lambda>_. mock_env 10 1) m ?s)) ! 0"
      by (simp only: mock_env_sel nth_map)
  qed
  from frozen_photon_unchanged [OF h, of ?cfg ?det] scat
  show ?thesis
    using h(1) by (simp add: lane_def)
qed

text \<open>
  Claim C3 (monotone decrease of the absorption budget). For a photon whose \<open>d_abs\<close> is
  not negative when the iteration starts, whose scatter distance is positive and whose hit
  fraction lies between 0 and 1, the \<open>d_abs\<close> after the iteration is at most the \<open>d_abs\<close>
  before it and is not negative, whether or not a cutoff is configured.
\<close>

theorem d_abs_monotone:
  fixes cfg det env s i
  defines "d_scat \<equiv> tf_sample_scatter env (pos_r s)"
  defines "d \<equiv> step_d d_scat (clamp_d_abs (d_abs s))"
  defines "hit_fraction \<equiv> tf_check_for_hits env (pos_r s) d (dir_v s)"
  assumes shaped: "well_shaped n s" "env_shaped n env" and i: "i < n"
    and nonneg: "0 \<le> d_abs s ! i"
    and scat: "0 < d_scat ! i"
    and hit: "0 \<le> hit_fraction ! i" "hit_fraction ! i \<le> 1"
  shows "d_abs (body cfg det env s) ! i \<le> d_abs s ! i \<and> 0 \<le> d_abs (body cfg det env s) ! i"
proof -
  let ?h = "if hit_fraction ! i < 1 then 0
            else max (d_abs s ! i) 0 - min (d_scat ! i) (max (d_abs s ! i) 0)"
  have h: "?h \<le> d_abs s ! i \<and> 0 \<le> ?h"
    using nonneg scat by (simp add: min_def max_def)
  consider (off) "CUTOFF_RADIUS cfg = None \<or> CUTOFF_RADIUS cfg = Some 0"
    | (on) c where "CUTOFF_RADIUS cfg = Some c" "c \<noteq> 0"
    by (cases "CUTOFF_RADIUS cfg") auto
  then show ?thesis
  proof cases
    case off
    have "d_abs (body cfg det env s) ! i = ?h"
      using body_lane_d_abs_off [OF shaped i off]
      by (simp add: hit_fraction_def d_def d_scat_def)
    then show ?thesis
      using h by simp
  next
    case on
    have "d_abs (body cfg det env s) ! i = ?h \<or> d_abs (body cfg det env s) ! i = 0"
      using body_lane_d_abs_on [OF shaped i on]
      by (simp add: hit_fraction_def d_def d_scat_def split: if_splits)
    then show ?thesis
      using h nonneg by auto
  qed
qed

text \<open>
  Absorption distance 5, scatter distance 3, no hit, cutoff fraction 2.
\<close>

theorem d_abs_monotone_witness:
  "well_shaped 1 (single 5 (0, 0, 0) (0, 0, 1) 0 0 0) \<and>
   env_shaped 1 (mock_env 3 1) \<and>
   d_abs (body \<lparr>BATCH_SIZE = 1, CASCADES_PER_STEP = 1, CUTOFF_RADIUS = Some 2\<rparr>
            \<lparr>l_x = 1, l_y = 1, l_z = 1\<rparr> (mock_env 3 1)
            (single 5 (0, 0, 0) (0, 0, 1) 0 0 0)) ! 0 \<le> 5 \<and>
   0 \<le> d_abs (body \<lparr>BATCH_SIZE = 1, CASCADES_PER_STEP = 1, CUTOFF_RADIUS = Some 2\<rparr>
            \<lparr>l_x = 1, l_y = 1, l_z = 1\<rparr> (mock_env 3 1)
            (single 5 (0, 0, 0) (0, 0, 1) 0 0 0)) ! 0"
proof -
  have h: "well_shaped 1 (single 5 (0, 0, 0) (0, 0, 1) 0 0 0)" "env_shaped 1 (mock_env 3 1)"
    "(0::nat) < 1"
    by simp_all
  have g: "0 \<le> d_abs (single 5 (0, 0, 0) (0, 0, 1) 0 0 0) ! 0"
    "0 < tf_sample_scatter (mock_env 3 1) (pos_r (single 5 (0, 0, 0) (0, 0, 1) 0 0 0)) ! 0"
    by simp_all
  have k: "0 \<le> tf_check_for_hits (mock_env 3 1) (pos_r (single 5 (0, 0, 0) (0, 0, 1) 0 0 0))
             (step_d (tf_sample_scatter (mock_env 3 1) (pos_r (single 5 (0, 0, 0) (0, 0, 1) 0 0 0)))
                (clamp_d_abs (d_abs (single 5 (0, 0, 0) (0, 0, 1) 0 0 0))))
             (dir_v (single 5 (0, 0, 0) (0, 0, 1) 0 0 0)) ! 0"
    "tf_check_for_hits (mock_env 3 1) (pos_r (single 5 (0, 0, 0) (0, 0, 1) 0 0 0))
             (step_d (tf_sample_scatter (mock_env 3 1) (pos_r (single 5 (0, 0, 0) (0, 0, 1) 0 0 0)))
                (clamp_d_abs (d_abs (single 5 (0, 0, 0) (0, 0, 1) 0 0 0))))
             (dir_v (single 5 (0, 0, 0) (0, 0, 1) 0 0 0)) ! 0 \<le> 1"
    by simp_all
  from d_abs_monotone [OF h g k,
      of "\<lparr>BATCH_SIZE = 1, CASCADES_PER_STEP = 1, CUTOFF_RADIUS = Some 2\<rparr>"
         "\<lparr>l_x = 1, l_y = 1, l_z = 1\<rparr>"]
  show ?thesis
    using h(1,2) by simp
qed

text \<open>
  Claim C7 (cutoff-radius freezing). With a cutoff fraction \<open>c\<close> configured
  (\<^verbatim>\<open>CUTOFF_RADIUS\<close> neither \<^verbatim>\<open>None\<close> nor zero), \<open>far\<close> the distance of the photon's
  position after the step from the centre \<open>(l_x/2, l_y/2, l_z/2)\<close> and \<open>radius\<close> the
  product of \<open>c\<close> and half the norm of \<open>(l_x, l_y, l_z)\<close>: a photon farther away than
  \<open>radius\<close> has \<open>d_abs\<close> 0 after the iteration (and so has a photon at exactly that
  distance), a photon strictly inside keeps the \<open>d_abs\<close> assigned at line 126. The test
  uses the position after the step; position and time are updated whether or not the
  photon is cut off; the scattering comes after the cutoff, so a photon that is cut off
  keeps its direction.
\<close>

theorem cutoff_freezing:
  fixes cfg det env s i c
  defines "d_scat \<equiv> tf_sample_scatter env (pos_r s)"
  defines "d_abs1 \<equiv> clamp_d_abs (d_abs s)"
  defines "d \<equiv> step_d d_scat d_abs1"
  defines "hit_fraction \<equiv> tf_check_for_hits env (pos_r s) d (dir_v s)"
  defines "s' \<equiv> body cfg det env s"
  defines "far \<equiv> norm3 (sub3 (pos_r s' ! i) (l_x det / 2, l_y det / 2, l_z det / 2))"
  defines "radius \<equiv> c * norm3 (l_x det, l_y det, l_z det) / 2"
  assumes shaped: "well_shaped n s" "env_shaped n env" and i: "i < n"
    and cutoff: "CUTOFF_RADIUS cfg = Some c" "c \<noteq> 0"
  shows "(radius < far \<longrightarrow> d_abs s' ! i = 0) \<and>
         (far = radius \<longrightarrow> d_abs s' ! i = 0) \<and>
         (far < radius \<longrightarrow> d_abs s' ! i = hit_d_abs hit_fraction d d_abs1 ! i) \<and>
         pos_r s' ! i = add3 (pos_r s ! i) (scale3 (d ! i * hit_fraction ! i) (dir_v s ! i)) \<and>
         time_t s' ! i = time_t s ! i + d ! i * hit_fraction ! i \<and>
         (radius \<le> far \<longrightarrow> dir_v s' ! i = dir_v s ! i)"
proof -
  from shaped have len: "length (d_abs s) = n" "length d_scat = n"
    by (simp_all add: well_shaped_def env_shaped_def d_scat_def)
  have d: "d ! i = min (d_scat ! i) (max (d_abs s ! i) 0)"
    using i by (simp add: d_def d_abs1_def nth_step_d nth_clamp_d_abs len)
  have hit: "hit_d_abs hit_fraction d d_abs1 ! i
               = (if hit_fraction ! i < 1 then 0 else max (d_abs s ! i) 0 - d ! i)"
    using body_lane_hit [OF shaped i] d
    by (simp add: hit_fraction_def d_def d_scat_def d_abs1_def)
  have da: "d_abs s' ! i = (if far < radius then hit_d_abs hit_fraction d d_abs1 ! i else 0)"
    using body_lane_d_abs_on [OF shaped i cutoff] d hit
    by (simp add: hit_fraction_def d_def d_scat_def d_abs1_def s'_def far_def radius_def)
  have pos: "pos_r s' ! i = add3 (pos_r s ! i) (scale3 (d ! i * hit_fraction ! i) (dir_v s ! i))"
    using body_lane_pos [OF shaped i] d
    by (simp add: hit_fraction_def d_def d_scat_def d_abs1_def s'_def)
  have tm: "time_t s' ! i = time_t s ! i + d ! i * hit_fraction ! i"
    using body_lane_time [OF shaped i] d
    by (simp add: hit_fraction_def d_def d_scat_def d_abs1_def s'_def)
  have dir: "dir_v s' ! i = dir_v s ! i" if "radius \<le> far"
    using body_lane_dir [OF shaped i, of cfg det] da that
    by (simp add: s'_def)
  from da pos tm dir show ?thesis
    by auto
qed

text \<open>
  A detector of extents \<open>(0, 0, 2)\<close>: its centre is \<open>(0, 0, 1)\<close>, half its norm is 1. The
  photon arrives at \<open>(0, 0, 3)\<close>, at distance 2 from the centre: with cutoff fraction 1 it
  is frozen, with cutoff fraction 4 it keeps the absorption distance 2.
\<close>

theorem cutoff_freezing_witness:
  "well_shaped 1 (single 5 (0, 0, 0) (0, 0, 1) 0 0 0) \<and>
   env_shaped 1 (mock_env 3 1) \<and>
   d_abs (body \<lparr>BATCH_SIZE = 1, CASCADES_PER_STEP = 1, CUTOFF_RADIUS = Some 1\<rparr>
            \<lparr>l_x = 0, l_y = 0, l_z = 2\<rparr> (mock_env 3 1)
            (single 5 (0, 0, 0) (0, 0, 1) 0 0 0)) ! 0 = 0 \<and>
   d_abs (body \<lparr>BATCH_SIZE = 1, CASCADES_PER_STEP = 1, CUTOFF_RADIUS = Some 4\<rparr>
            \<lparr>l_x = 0, l_y = 0, l_z = 2\<rparr> (mock_env 3 1)
            (single 5 (0, 0, 0) (0, 0, 1) 0 0 0)) ! 0 = 2"
proof -
  let ?det = "\<lparr>l_x = 0, l_y = 0, l_z = 2\<rparr>"
  let ?s = "single 5 (0, 0, 0) (0, 0, 1) 0 0 0"
  have h: "well_shaped 1 ?s" "env_shaped 1 (mock_env 3 1)" "(0::nat) < 1"
    by simp_all
  have c1: "CUTOFF_RADIUS \<lparr>BATCH_SIZE = 1, CASCADES_PER_STEP = 1, CUTOFF_RADIUS = Some 1\<rparr> = Some 1"
    "(1::real) \<noteq> 0"
    by simp_all
  have c4: "CUTOFF_RADIUS \<lparr>BATCH_SIZE = 1, CASCADES_PER_STEP = 1, CUTOFF_RADIUS = Some 4\<rparr> = Some 4"
    "(4::real) \<noteq> 0"
    by simp_all
  have outside: "d_abs (body \<lparr>BATCH_SIZE = 1, CASCADES_PER_STEP = 1, CUTOFF_RADIUS = Some 1\<rparr>
            ?det (mock_env 3 1) ?s) ! 0 = 0"
    using cutoff_freezing [OF h c1, of ?det]
    by (simp add: clamp_d_abs_def step_d_def hit_d_abs_def tf_where_def zeros_like_def)
  have inside: "d_abs (body \<lparr>BATCH_SIZE = 1, CASCADES_PER_STEP = 1, CUTOFF_RADIUS = Some 4\<rparr>
            ?det (mock_env 3 1) ?s) ! 0 = 2"
    using cutoff_freezing [OF h c4, of ?det]
    by (simp add: clamp_d_abs_def step_d_def hit_d_abs_def tf_where_def zeros_like_def)
  from outside inside h show ?thesis
    by simp
qed

text \<open>
  Claim C8 (post-step layer attribution). In every iteration the increment
  \<open>d ! i * hit_fraction ! i\<close> is added to \<open>t_layer_0\<close> exactly when the \<open>z\<close> coordinate of the
  position after the step is below 50, and to \<open>t_layer_1\<close> exactly when it is at least 50;
  the position before the step enters only through the position after the step.
\<close>

theorem layer_attribution:
  fixes cfg det env s i
  defines "d_scat \<equiv> tf_sample_scatter env (pos_r s)"
  defines "d \<equiv> step_d d_scat (clamp_d_abs (d_abs s))"
  defines "hit_fraction \<equiv> tf_check_for_hits env (pos_r s) d (dir_v s)"
  defines "s' \<equiv> body cfg det env s"
  assumes shaped: "well_shaped n s" "env_shaped n env" and i: "i < n"
  shows "pos_r s' ! i = add3 (pos_r s ! i) (scale3 (d ! i * hit_fraction ! i) (dir_v s ! i)) \<and>
         t_layer_0 s' ! i
           = t_layer_0 s ! i + (if z_of (pos_r s' ! i) < 50 then d ! i * hit_fraction ! i else 0) \<and>
         t_layer_1 s' ! i
           = t_layer_1 s ! i + (if 50 \<le> z_of (pos_r s' ! i) then d ! i * hit_fraction ! i else 0)"
proof -
  from shaped have len: "length (d_abs s) = n" "length d_scat = n"
    by (simp_all add: well_shaped_def env_shaped_def d_scat_def)
  have d: "d ! i = min (d_scat ! i) (max (d_abs s ! i) 0)"
    using i by (simp add: d_def nth_step_d nth_clamp_d_abs len)
  have pos: "pos_r s' ! i = add3 (pos_r s ! i) (scale3 (d ! i * hit_fraction ! i) (dir_v s ! i))"
    using body_lane_pos [OF shaped i] d
    by (simp add: hit_fraction_def d_def d_scat_def s'_def)
  have t0: "t_layer_0 s' ! i
           = t_layer_0 s ! i + (if z_of (pos_r s' ! i) < 50 then d ! i * hit_fraction ! i else 0)"
    using body_lane_t0 [OF shaped i, of cfg det] d
    by (simp add: hit_fraction_def d_def d_scat_def s'_def)
  have t1: "t_layer_1 s' ! i
           = t_layer_1 s ! i + (if 50 \<le> z_of (pos_r s' ! i) then d ! i * hit_fraction ! i else 0)"
    using body_lane_t1 [OF shaped i, of cfg det] d
    by (simp add: hit_fraction_def d_def d_scat_def s'_def)
  from pos t0 t1 show ?thesis
    by blast
qed

text \<open>
  A photon that starts at \<open>z = 49\<close> and flies 3 upwards ends at \<open>z = 52\<close>: the whole
  increment goes to layer 1, although the photon started in layer 0 and crossed the
  boundary during the step.
\<close>

theorem layer_attribution_witness:
  "well_shaped 1 (single 5 (0, 0, 49) (0, 0, 1) 0 0 0) \<and>
   env_shaped 1 (mock_env 3 1) \<and>
   pos_r (body \<lparr>BATCH_SIZE = 1, CASCADES_PER_STEP = 1, CUTOFF_RADIUS = None\<rparr>
            \<lparr>l_x = 1, l_y = 1, l_z = 1\<rparr> (mock_env 3 1)
            (single 5 (0, 0, 49) (0, 0, 1) 0 0 0)) ! 0 = (0, 0, 52) \<and>
   t_layer_0 (body \<lparr>BATCH_SIZE = 1, CASCADES_PER_STEP = 1, CUTOFF_RADIUS = None\<rparr>
            \<lparr>l_x = 1, l_y = 1, l_z = 1\<rparr> (mock_env 3 1)
            (single 5 (0, 0, 49) (0, 0, 1) 0 0 0)) ! 0 = 0 \<and>
   t_layer_1 (body \<lparr>BATCH_SIZE = 1, CASCADES_PER_STEP = 1, CUTOFF_RADIUS = None\<rparr>
            \<lparr>l_x = 1, l_y = 1, l_z = 1\<rparr> (mock_env 3 1)
            (single 5 (0, 0, 49) (0, 0, 1) 0 0 0)) ! 0 = 3"
proof -
  have h: "well_shaped 1 (single 5 (0, 0, 49) (0, 0, 1) 0 0 0)" "env_shaped 1 (mock_env 3 1)"
    "(0::nat) < 1"
    by simp_all
  from layer_attribution [OF h,
      of "\<lparr>BATCH_SIZE = 1, CASCADES_PER_STEP = 1, CUTOFF_RADIUS = None\<rparr>"
         "\<lparr>l_x = 1, l_y = 1, l_z = 1\<rparr>"]
  show ?thesis
    using h(1,2) by (simp add: clamp_d_abs_def step_d_def tf_where_def zeros_like_def)
qed

section \<open>Claims about the loop\<close>

text \<open>
  Claim C5 (time partition invariant), as stated for every photon after every iteration,
  fails after a scattering whose sampled direction is parallel to the photon's direction.
  One photon at the origin flying along \<open>z\<close>, absorption distance 5, scatter distance 3, no
  hit, and the draw 0 for the polar angle, so that the sampled direction is \<open>(0, 0, 1)\<close>:
  the first iteration moves the photon to \<open>z = 3\<close> and scatters it to NaN, the second
  moves it to NaN, where neither \<open>z < 50\<close> nor \<open>z \<ge> 50\<close> holds. \<^verbatim>\<open>tf_propagate\<close> ends with
  elapsed time 5 and layer times 3 and 0.
\<close>

theorem time_partition_counterexample:
  "tf_propagate_nan \<lparr>BATCH_SIZE = 1, CASCADES_PER_STEP = 1, CUTOFF_RADIUS = None\<rparr>
     \<lparr>l_x = 1, l_y = 1, l_z = 1\<rparr> (mock_absorption 5) (mock_envs_nan 3 1 (1 / 2) 0 0)
     [(0, 0, 0)] [(0, 0, 1)]
   = Some \<lparr>d_abs_nan = [0], pos_r_nan = [None], dir_v_nan = [None], time_t_nan = [5],
           t_layer_0_nan = [3], t_layer_1_nan = [0]\<rparr> \<and>
   (3::real) + 0 \<noteq> 5"
proof -
  let ?cfg = "\<lparr>BATCH_SIZE = 1, CASCADES_PER_STEP = 1, CUTOFF_RADIUS = None\<rparr>"
  let ?det = "\<lparr>l_x = 1, l_y = 1, l_z = 1\<rparr>"
  let ?envs = "mock_envs_nan 3 1 (1 / 2) 0 0"
  let ?s0 = "\<lparr>d_abs_nan = [5], pos_r_nan = [Some (0, 0, 0)], dir_v_nan = [Some (0, 0, 1)],
              time_t_nan = [0], t_layer_0_nan = [0], t_layer_1_nan = [0]\<rparr>"
  let ?s1 = "\<lparr>d_abs_nan = [2], pos_r_nan = [Some (0, 0, 3)], dir_v_nan = [None],
              time_t_nan = [3], t_layer_0_nan = [3], t_layer_1_nan = [0]\<rparr>"
  let ?s2 = "\<lparr>d_abs_nan = [0], pos_r_nan = [None], dir_v_nan = [None],
              time_t_nan = [5], t_layer_0_nan = [3], t_layer_1_nan = [0]\<rparr>"
  have s0: "init_vars_nan (mock_absorption 5) [(0, 0, 0)] [(0, 0, 1)] = ?s0"
    by (simp add: init_vars_nan_def zeros_def mock_absorption_def)
  have b1: "body_nan ?cfg ?det (?envs 0) ?s0 = ?s1"
    by (simp add: body_nan_eval)
  have b2: "body_nan ?cfg ?det (?envs (Suc 0)) ?s1 = ?s2"
    by (simp add: body_nan_eval)
  have c: "loop_cond_nan ?s0" "loop_cond_nan ?s1" "\<not> loop_cond_nan ?s2"
    by (simp_all add: loop_cond_nan_def)
  have "while_loop_nan ?cfg ?det ?envs (Suc (Suc 0)) ?s2 = Some ?s2"
    by (subst while_loop_nan.simps) (simp only: c if_False)
  then have "while_loop_nan ?cfg ?det ?envs (Suc 0) ?s1 = Some ?s2"
    by (subst while_loop_nan.simps) (simp only: c if_True b2)
  then have "while_loop_nan ?cfg ?det ?envs 0 ?s0 = Some ?s2"
    by (subst while_loop_nan.simps) (simp only: c if_True b1)
  then have "tf_propagate_nan ?cfg ?det (mock_absorption 5) ?envs [(0, 0, 0)] [(0, 0, 1)] = Some ?s2"
    by (simp only: tf_propagate_nan_def s0)
  then show ?thesis
    by simp
qed

text \<open>
  Claim C5, amended. Let \<open>s0\<close> be the initial loop variables, \<open>s\<close> the loop variables after
  \<open>m\<close> iterations and \<open>s'\<close> those after one more, and let every scattering that the photon
  underwent in the first \<open>m\<close> iterations be a number (draw between 0 and 1, sampled
  direction not parallel to the photon's direction). Then: the three times are 0 in \<open>s0\<close>;
  the iteration adds \<open>d ! i * hit_fraction ! i\<close> to the elapsed time and the same increment
  to exactly one of the two layer times (the other is unchanged), chosen by the \<open>z\<close>
  coordinate of the position after the step, which is a number; the two layer times add
  up to the elapsed time in \<open>s\<close> and in \<open>s'\<close>; and the elapsed time does not decrease when
  \<open>d ! i\<close> is not negative and the hit fraction lies between 0 and 1.
\<close>

theorem time_partition:
  fixes cfg det absorption envs r0 v0 n m i
  defines "s0 \<equiv> init_vars_nan absorption r0 v0"
  defines "s \<equiv> iterations_nan cfg det envs m s0"
  defines "d \<equiv> step_d (tf_sample_scatter_nan (envs m) (pos_r_nan s)) (clamp_d_abs (d_abs_nan s))"
  defines "hit_fraction \<equiv> tf_check_for_hits_nan (envs m) (pos_r_nan s) d (dir_v_nan s)"
  defines "s' \<equiv> iterations_nan cfg det envs (Suc m) s0"
  assumes len: "length r0 = n" "length v0 = n" "length (absorption r0) = n"
    and shaped: "\<forall>k. env_shaped_nan n (envs k)" and i: "i < n"
    and defined: "\<forall>k<m. \<forall>w. dir_v_nan (iterations_nan cfg det envs k s0) ! i = Some w \<and>
                   0 < d_abs_nan (iterations_nan cfg det envs (Suc k) s0) ! i
                   \<longrightarrow> scatter_defined (envs k) i w"
  shows "time_t_nan s0 ! i = 0 \<and> t_layer_0_nan s0 ! i = 0 \<and> t_layer_1_nan s0 ! i = 0 \<and>
         time_t_nan s' ! i = time_t_nan s ! i + d ! i * hit_fraction ! i \<and>
         (\<exists>p. pos_r_nan s' ! i = Some p \<and>
              (if z_of p < 50
               then t_layer_0_nan s' ! i = t_layer_0_nan s ! i + d ! i * hit_fraction ! i \<and>
                    t_layer_1_nan s' ! i = t_layer_1_nan s ! i
               else t_layer_0_nan s' ! i = t_layer_0_nan s ! i \<and>
                    t_layer_1_nan s' ! i = t_layer_1_nan s ! i + d ! i * hit_fraction ! i)) \<and>
         t_layer_0_nan s ! i + t_layer_1_nan s ! i = time_t_nan s ! i \<and>
         t_layer_0_nan s' ! i + t_layer_1_nan s' ! i = time_t_nan s' ! i \<and>
         (0 \<le> d ! i \<and> 0 \<le> hit_fraction ! i \<and> hit_fraction ! i \<le> 1 \<longrightarrow>
            time_t_nan s ! i \<le> time_t_nan s' ! i)"
proof -
  have ws: "well_shaped_nan n s"
    unfolding s_def s0_def using len shaped
    by (intro iterations_nan_well_shaped well_shaped_init_vars_nan)
  have es: "env_shaped_nan n (envs m)"
    using shaped by simp
  have s': "s' = body_nan cfg det (envs m) s"
    by (simp add: s'_def s_def)
  have init: "time_t_nan s0 ! i = 0 \<and> t_layer_0_nan s0 ! i = 0 \<and> t_layer_1_nan s0 ! i = 0"
    using i len by (simp add: s0_def)
  from rows_defined [OF len shaped i defined [unfolded s0_def], of m]
  obtain p w where p: "pos_r_nan s ! i = Some p" and w: "dir_v_nan s ! i = Some w"
    and part: "t_layer_0_nan s ! i + t_layer_1_nan s ! i = time_t_nan s ! i"
    unfolding s_def s0_def by auto
  have tm: "time_t_nan s' ! i = time_t_nan s ! i + d ! i * hit_fraction ! i"
    using body_nan_lane_time [OF ws es i, of cfg det]
    by (simp add: s' hit_fraction_def d_def)
  obtain p' where p': "pos_r_nan s' ! i = Some p'"
    using body_nan_lane_pos [OF ws es i, of cfg det] by (simp add: s' p w)
  have t0: "t_layer_0_nan s' ! i
      = t_layer_0_nan s ! i + (if z_of p' < 50 then d ! i * hit_fraction ! i else 0)"
    using body_nan_lane_t0 [OF ws es i, of cfg det] p'
    by (simp add: s' hit_fraction_def d_def z_lt_def)
  have t1: "t_layer_1_nan s' ! i
      = t_layer_1_nan s ! i + (if 50 \<le> z_of p' then d ! i * hit_fraction ! i else 0)"
    using body_nan_lane_t1 [OF ws es i, of cfg det] p'
    by (simp add: s' hit_fraction_def d_def z_ge_def)
  have part': "t_layer_0_nan s' ! i + t_layer_1_nan s' ! i = time_t_nan s' ! i"
    using part tm t0 t1 by simp
  have mono: "time_t_nan s ! i \<le> time_t_nan s' ! i"
    if "0 \<le> d ! i \<and> 0 \<le> hit_fraction ! i \<and> hit_fraction ! i \<le> 1"
    using that tm by simp
  have step: "\<exists>p. pos_r_nan s' ! i = Some p \<and>
              (if z_of p < 50
               then t_layer_0_nan s' ! i = t_layer_0_nan s ! i + d ! i * hit_fraction ! i \<and>
                    t_layer_1_nan s' ! i = t_layer_1_nan s ! i
               else t_layer_0_nan s' ! i = t_layer_0_nan s ! i \<and>
                    t_layer_1_nan s' ! i = t_layer_1_nan s ! i + d ! i * hit_fraction ! i)"
    using p' t0 t1 by (intro exI [of _ p']) simp
  from init tm step part part' mono show ?thesis
    by blast
qed

text \<open>
  One photon that starts at \<open>z = 49\<close> and flies upwards, scatter distance 3, absorption
  distance 5, no hit, and the sampled direction \<open>(1, 0, 0)\<close>: after two iterations the
  elapsed time is 5, all of it in layer 1.
\<close>

theorem time_partition_witness:
  "(\<forall>k. env_shaped_nan 1 (mock_envs_nan 3 1 1 (1 / 2) 0 k)) \<and>
   scatter_defined (mock_envs_nan 3 1 1 (1 / 2) 0 0) 0 (0, 0, 1) \<and>
   iterations_nan \<lparr>BATCH_SIZE = 1, CASCADES_PER_STEP = 1, CUTOFF_RADIUS = None\<rparr>
     \<lparr>l_x = 1, l_y = 1, l_z = 1\<rparr> (mock_envs_nan 3 1 1 (1 / 2) 0) (Suc (Suc 0))
     (init_vars_nan (mock_absorption 5) [(0, 0, 49)] [(0, 0, 1)])
   = \<lparr>d_abs_nan = [0], pos_r_nan = [Some (0, 0, 54)], dir_v_nan = [Some (0, 0, 1)],
      time_t_nan = [5], t_layer_0_nan = [0], t_layer_1_nan = [5]\<rparr> \<and>
   t_layer_0_nan (iterations_nan \<lparr>BATCH_SIZE = 1, CASCADES_PER_STEP = 1, CUTOFF_RADIUS = None\<rparr>
     \<lparr>l_x = 1, l_y = 1, l_z = 1\<rparr> (mock_envs_nan 3 1 1 (1 / 2) 0) (Suc (Suc 0))
     (init_vars_nan (mock_absorption 5) [(0, 0, 49)] [(0, 0, 1)])) ! 0
   + t_layer_1_nan (iterations_nan \<lparr>BATCH_SIZE = 1, CASCADES_PER_STEP = 1, CUTOFF_RADIUS = None\<rparr>
     \<lparr>l_x = 1, l_y = 1, l_z = 1\<rparr> (mock_envs_nan 3 1 1 (1 / 2) 0) (Suc (Suc 0))
     (init_vars_nan (mock_absorption 5) [(0, 0, 49)] [(0, 0, 1)])) ! 0
   = time_t_nan (iterations_nan \<lparr>BATCH_SIZE = 1, CASCADES_PER_STEP = 1, CUTOFF_RADIUS = None\<rparr>
     \<lparr>l_x = 1, l_y = 1, l_z = 1\<rparr> (mock_envs_nan 3 1 1 (1 / 2) 0) (Suc (Suc 0))
     (init_vars_nan (mock_absorption 5) [(0, 0, 49)] [(0, 0, 1)])) ! 0"
proof -
  let ?cfg = "\<lparr>BATCH_SIZE = 1, CASCADES_PER_STEP = 1, CUTOFF_RADIUS = None\<rparr>"
  let ?det = "\<lparr>l_x = 1, l_y = 1, l_z = 1\<rparr>"
  let ?envs = "mock_envs_nan 3 1 1 (1 / 2) 0"
  let ?r0 = "[(0, 0, 49)] :: vec3 list"
  let ?v0 = "[(0, 0, 1)] :: vec3 list"
  let ?s0 = "\<lparr>d_abs_nan = [5], pos_r_nan = [Some (0, 0, 49)], dir_v_nan = [Some (0, 0, 1)],
              time_t_nan = [0], t_layer_0_nan = [0], t_layer_1_nan = [0]\<rparr>"
  let ?s1 = "\<lparr>d_abs_nan = [2], pos_r_nan = [Some (0, 0, 52)], dir_v_nan = [Some (0, 0, 1)],
              time_t_nan = [3], t_layer_0_nan = [0], t_layer_1_nan = [3]\<rparr>"
  let ?s2 = "\<lparr>d_abs_nan = [0], pos_r_nan = [Some (0, 0, 54)], dir_v_nan = [Some (0, 0, 1)],
              time_t_nan = [5], t_layer_0_nan = [0], t_layer_1_nan = [5]\<rparr>"
  have h: "length ?r0 = Suc 0" "length ?v0 = Suc 0" "length (mock_absorption 5 ?r0) = Suc 0"
    "\<forall>k. env_shaped_nan (Suc 0) (?envs k)" "(0::nat) < Suc 0"
    by (simp_all add: mock_absorption_def)
  have sd: "scatter_defined (?envs 0) 0 (0, 0, 1)"
    by (simp add: scatter_defined_def mock_envs_nan_def const_draw_def)
  have s0: "init_vars_nan (mock_absorption 5) ?r0 ?v0 = ?s0"
    by (simp add: init_vars_nan_def zeros_def mock_absorption_def)
  have b1: "body_nan ?cfg ?det (?envs 0) ?s0 = ?s1"
    by (simp add: body_nan_eval)
  have b2: "body_nan ?cfg ?det (?envs (Suc 0)) ?s1 = ?s2"
    by (simp add: body_nan_eval)
  have run: "iterations_nan ?cfg ?det ?envs (Suc (Suc 0)) (init_vars_nan (mock_absorption 5) ?r0 ?v0)
               = ?s2"
    by (simp only: iterations_nan.simps s0 b1 b2)
  have d: "\<forall>k<Suc 0. \<forall>w.
      dir_v_nan (iterations_nan ?cfg ?det ?envs k (init_vars_nan (mock_absorption 5) ?r0 ?v0)) ! 0
        = Some w \<and>
      0 < d_abs_nan (iterations_nan ?cfg ?det ?envs (Suc k)
                       (init_vars_nan (mock_absorption 5) ?r0 ?v0)) ! 0
      \<longrightarrow> scatter_defined (?envs k) 0 w"
    using sd by (simp add: init_vars_nan_def)
  from time_partition [where absorption = "mock_absorption 5" and envs = ?envs and cfg = ?cfg
      and det = ?det, OF h d]
  have "t_layer_0_nan (iterations_nan ?cfg ?det ?envs (Suc (Suc 0))
            (init_vars_nan (mock_absorption 5) ?r0 ?v0)) ! 0
        + t_layer_1_nan (iterations_nan ?cfg ?det ?envs (Suc (Suc 0))
            (init_vars_nan (mock_absorption 5) ?r0 ?v0)) ! 0
        = time_t_nan (iterations_nan ?cfg ?det ?envs (Suc (Suc 0))
            (init_vars_nan (mock_absorption 5) ?r0 ?v0)) ! 0"
    by (elim conjE)
  with run sd h(4) show ?thesis
    by (simp only: One_nat_def simp_thms)
qed

text \<open>
  Claim C6 (deterministic one-step scenario). When the ice answers every scatter request
  with distance 10, every initial absorption distance is 5, the detector always answers
  with hit fraction 1 and no cutoff is configured, \<^verbatim>\<open>tf_propagate\<close> terminates; for a
  batch that is not empty the loop condition holds at the start and fails after the first
  execution of the body, so the result is the state after exactly one iteration; and in
  the result every photon has \<open>d_abs\<close> 0, elapsed time 5 and the position \<open>r0 + 5 v0\<close>.
  (For an empty batch the loop runs no iteration.)
\<close>

theorem one_step_scenario:
  fixes cfg det absorption envs r0 v0 n
  defines "s0 \<equiv> init_vars absorption r0 v0"
  assumes len: "length r0 = n" "length v0 = n"
    and absorb: "absorption r0 = replicate n 5"
    and scat: "\<forall>k rs. tf_sample_scatter (envs k) rs = replicate (length rs) 10"
    and hits: "\<forall>k rs d vs. tf_check_for_hits (envs k) rs d vs = replicate (length rs) 1"
    and cutoff: "CUTOFF_RADIUS cfg = None \<or> CUTOFF_RADIUS cfg = Some 0"
  shows "\<exists>s'. tf_propagate cfg det absorption envs r0 v0 = Some s' \<and>
           (0 < n \<longrightarrow> loop_cond s0 \<and> s' = body cfg det (envs 0) s0 \<and> \<not> loop_cond s') \<and>
           (\<forall>i < n. d_abs s' ! i = 0 \<and> time_t s' ! i = 5 \<and>
                     pos_r s' ! i = add3 (r0 ! i) (scale3 5 (v0 ! i)))"
proof (cases "n = 0")
  case True
  then have "\<not> loop_cond s0"
    using absorb by (simp add: loop_cond_iff s0_def)
  then have "tf_propagate cfg det absorption envs r0 v0 = Some s0"
    by (simp add: tf_propagate_def while_loop.simps s0_def)
  with True show ?thesis
    by simp
next
  case False
  let ?s1 = "body cfg det (envs 0) s0"
  have ws: "well_shaped n s0"
    unfolding s0_def using len absorb by (intro well_shaped_init_vars) simp_all
  have es: "env_shaped n (envs 0)"
    using scat hits by (simp add: env_shaped_def)
  have ws1: "well_shaped n ?s1"
    using ws es by (rule body_well_shaped)
  have row: "d_abs ?s1 ! i = 0 \<and> time_t ?s1 ! i = 5 \<and>
             pos_r ?s1 ! i = add3 (r0 ! i) (scale3 5 (v0 ! i))" if i: "i < n" for i
  proof -
    have sc: "tf_sample_scatter (envs 0) (pos_r s0) ! i = 10"
      using i len scat by (simp add: s0_def)
    have hf: "tf_check_for_hits (envs 0) (pos_r s0) d (dir_v s0) ! i = 1" for d
      using i len hits by (simp add: s0_def)
    have da: "d_abs s0 ! i = 5"
      using i absorb by (simp add: s0_def)
    have "d_abs ?s1 ! i = 0"
      using body_lane_d_abs_off [OF ws es i cutoff] by (simp add: sc hf da)
    moreover have "time_t ?s1 ! i = 5"
      using body_lane_time [OF ws es i, of cfg det] i len by (simp add: sc hf da) (simp add: s0_def)
    moreover have "pos_r ?s1 ! i = add3 (r0 ! i) (scale3 5 (v0 ! i))"
      using body_lane_pos [OF ws es i, of cfg det] by (simp add: sc hf da) (simp add: s0_def)
    ultimately show ?thesis
      by simp
  qed
  have c0: "loop_cond s0"
    using False absorb by (simp add: loop_cond_iff s0_def)
  have "x = 0" if "x \<in> set (d_abs ?s1)" for x
  proof -
    from that obtain i where "i < length (d_abs ?s1)" "d_abs ?s1 ! i = x"
      by (auto simp: in_set_conv_nth)
    with ws1 row show ?thesis
      by (auto simp: well_shaped_def)
  qed
  then have c1: "\<not> loop_cond ?s1"
    by (auto simp: loop_cond_iff)
  have "while_loop cfg det envs (Suc 0) ?s1 = Some ?s1"
    using c1 by (subst while_loop.simps) simp
  with c0 have "tf_propagate cfg det absorption envs r0 v0 = Some ?s1"
    unfolding tf_propagate_def s0_def [symmetric]
    by (subst while_loop.simps) simp
  with c0 c1 row show ?thesis
    by simp
qed

text \<open>
  Two photons, at \<open>(0, 0, 0)\<close> flying along \<open>z\<close> and at \<open>(1, 1, 1)\<close> flying along \<open>x\<close>.
\<close>

theorem one_step_scenario_witness:
  "\<exists>s'. tf_propagate \<lparr>BATCH_SIZE = 2, CASCADES_PER_STEP = 1, CUTOFF_RADIUS = None\<rparr>
           \<lparr>l_x = 1, l_y = 1, l_z = 1\<rparr> (\<lambda>rs. map (\<lambda>_. 5) rs) (\<lambda>_. mock_env 10 1)
           [(0, 0, 0), (1, 1, 1)] [(0, 0, 1), (1, 0, 0)] = Some s' \<and>
         s' = body \<lparr>BATCH_SIZE = 2, CASCADES_PER_STEP = 1, CUTOFF_RADIUS = None\<rparr>
                \<lparr>l_x = 1, l_y = 1, l_z = 1\<rparr> (mock_env 10 1)
                (init_vars (\<lambda>rs. map (\<lambda>_. 5) rs) [(0, 0, 0), (1, 1, 1)] [(0, 0, 1), (1, 0, 0)]) \<and>
         d_abs s' ! 0 = 0 \<and> d_abs s' ! 1 = 0 \<and>
         time_t s' ! 0 = 5 \<and> time_t s' ! 1 = 5 \<and>
         pos_r s' ! 0 = (0, 0, 5) \<and> pos_r s' ! 1 = (6, 1, 1)"
proof -
  let ?cfg = "\<lparr>BATCH_SIZE = 2, CASCADES_PER_STEP = 1, CUTOFF_RADIUS = None\<rparr>"
  let ?r0 = "[(0, 0, 0), (1, 1, 1)] :: vec3 list"
  let ?v0 = "[(0, 0, 1), (1, 0, 0)] :: vec3 list"
  have h1: "length ?r0 = 2" "length ?v0 = 2"
    by simp_all
  have h2: "(\<lambda>rs. map (\<lambda>_. 5) rs) ?r0 = replicate 2 (5::real)"
    by (simp add: numeral_2_eq_2)
  have h3: "\<forall>(k::nat) rs. tf_sample_scatter (mock_env 10 1) rs = replicate (length rs) 10"
    "\<forall>(k::nat) rs d vs. tf_check_for_hits (mock_env 10 1) rs d vs = replicate (length rs) 1"
    by (simp_all only: mock_env_sel map_replicate_const simp_thms)
  have h4: "CUTOFF_RADIUS ?cfg = None \<or> CUTOFF_RADIUS ?cfg = Some 0"
    by simp
  note h = h1 h2 h3 h4
  from one_step_scenario [where absorption = "\<lambda>rs. map (\<lambda>_. 5) rs"
      and envs = "\<lambda>_. mock_env 10 1" and det = "\<lparr>l_x = 1, l_y = 1, l_z = 1\<rparr>", OF h]
  show ?thesis
  proof (elim exE conjE)
    fix s'
    assume run: "tf_propagate ?cfg \<lparr>l_x = 1, l_y = 1, l_z = 1\<rparr> (\<lambda>rs. map (\<lambda>_. 5) rs)
           (\<lambda>_. mock_env 10 1) ?r0 ?v0 = Some s'"
      and one: "0 < (2::nat) \<longrightarrow> loop_cond (init_vars (\<lambda>rs. map (\<lambda>_. 5) rs) ?r0 ?v0) \<and>
           s' = body ?cfg \<lparr>l_x = 1, l_y = 1, l_z = 1\<rparr> (mock_env 10 1)
                  (init_vars (\<lambda>rs. map (\<lambda>_. 5) rs) ?r0 ?v0) \<and> \<not> loop_cond s'"
      and rows: "\<forall>i < 2. d_abs s' ! i = 0 \<and> time_t s' ! i = 5 \<and>
                     pos_r s' ! i = add3 (?r0 ! i) (scale3 5 (?v0 ! i))"
    have eq: "s' = body ?cfg \<lparr>l_x = 1, l_y = 1, l_z = 1\<rparr> (mock_env 10 1)
                  (init_vars (\<lambda>rs. map (\<lambda>_. 5) rs) ?r0 ?v0)"
      using one by simp
    have r0: "d_abs s' ! 0 = 0 \<and> time_t s' ! 0 = 5 \<and> pos_r s' ! 0 = (0, 0, 5)"
      using rows [rule_format, of 0] by simp
    have r1: "d_abs s' ! 1 = 0 \<and> time_t s' ! 1 = 5 \<and> pos_r s' ! 1 = (6, 1, 1)"
      using rows [rule_format, of 1] by simp
    from run eq r0 r1 show ?thesis
      by (intro exI [of _ s']) (simp only: simp_thms)
  qed
qed

section \<open>Claims about the scattering\<close>

text \<open>
  Claim C4 (unit-norm preservation by scattering). For every batch \<open>v\<close> and every row \<open>i\<close>
  of it whose direction has norm 1, every draw \<open>u_cos i\<close> between 0 and 1 of the scattering
  variable and every auxiliary direction \<open>aux\<close> (given by the draws \<open>u_theta i\<close> and
  \<open>u_phi i\<close>) whose cross product with the direction is not the zero vector, row \<open>i\<close> of
  \<^verbatim>\<open>tf_scatter(v)\<close> has norm 1, exactly, in real arithmetic. The quaternion built by
  \<^verbatim>\<open>tf_scatter\<close> has norm 1 (its scalar part squared is \<open>(cosT + 1) / 2\<close>, its vector part
  is a unit vector scaled by \<open>sqrt ((1 - cosT) / 2)\<close>), and the rotation formula changes the
  squared norm of a vector by a multiple of the squared norm of the quaternion minus 1
  (lemma \<open>rotate_sq\<close>).
\<close>

theorem scatter_unit_norm:
  fixes u_cos u_theta u_phi v i
  defines "aux \<equiv> (sin (u_theta i * pi) * cos (u_phi i * 2 * pi),
                  sin (u_theta i * pi) * sin (u_phi i * 2 * pi), cos (u_theta i * pi))"
  assumes i: "i < length v"
    and unit: "norm3 (v ! i) = 1"
    and u: "0 \<le> u_cos i" "u_cos i \<le> 1"
    and cross: "cross3 aux (v ! i) \<noteq> (0, 0, 0)"
  shows "norm3 (tf_scatter u_cos u_theta u_phi v ! i) = 1"
proof -
  define c where "c = 2 * u_cos i powr (1 / 19) - 1"
  define n where "n = tf_sample_normal_vectors u_theta u_phi v ! i"
  have "0 \<le> u_cos i powr (1 / 19)" "u_cos i powr (1 / 19) \<le> 1"
    using u by (simp_all add: powr_le1)
  then have c: "- 1 \<le> c" "c \<le> 1"
    by (simp_all add: c_def)
  have n: "(norm3 n)\<^sup>2 = 1"
    unfolding n_def nth_tf_sample_normal_vectors [OF i]
    using cross by (intro norm3_normalised) (simp add: aux_def)
  have "sqrt ((c + 1) / 2) * sqrt ((c + 1) / 2) + (norm3 (scale3 (sqrt ((1 - c) / 2)) n))\<^sup>2 = 1"
    using c by (simp add: norm3_scale3_sq n) (simp add: field_simps)
  then have "norm3 (rotate_vector_by_quaternion
                 (sqrt ((c + 1) / 2), scale3 (sqrt ((1 - c) / 2)) n) (v ! i)) = norm3 (v ! i)"
    by (rule rotate_norm)
  then show ?thesis
    unfolding nth_tf_scatter [OF i] c_def n_def using unit by simp
qed

text \<open>
  The direction \<open>(0, 0, 1)\<close>, the draw 0 of the scattering variable (a deflection by the
  angle \<open>\<pi>\<close>) and the auxiliary direction \<open>(1, 0, 0)\<close>: the axis is \<open>(0, -1, 0)\<close> and the
  scattered direction is \<open>(0, 0, -1)\<close>.
\<close>

theorem scatter_unit_norm_witness:
  "norm3 ([(0, 0, 1)] ! 0) = 1 \<and>
   cross3 (sin (1 / 2 * pi) * cos (0 * 2 * pi), sin (1 / 2 * pi) * sin (0 * 2 * pi), cos (1 / 2 * pi))
     ([(0, 0, 1)] ! 0) = (0, - 1, 0) \<and>
   norm3 (tf_scatter (\<lambda>_. 0) (\<lambda>_. 1 / 2) (\<lambda>_. 0) [(0, 0, 1)] ! 0) = 1 \<and>
   tf_scatter (\<lambda>_. 0) (\<lambda>_. 1 / 2) (\<lambda>_. 0) [(0, 0, 1)] ! 0 = (0, 0, - 1)"
proof -
  have h: "0 < length [(0, 0, 1) :: vec3]" "norm3 ([(0, 0, 1)] ! 0) = 1"
    "(0::real) \<le> (\<lambda>_::nat. 0) 0" "(\<lambda>_::nat. 0::real) 0 \<le> 1"
    by simp_all
  have cr: "cross3 (sin ((\<lambda>_::nat. 1 / 2) 0 * pi) * cos ((\<lambda>_::nat. 0) 0 * 2 * pi),
              sin ((\<lambda>_::nat. 1 / 2) 0 * pi) * sin ((\<lambda>_::nat. 0) 0 * 2 * pi),
              cos ((\<lambda>_::nat. 1 / 2) 0 * pi)) ([(0, 0, 1)] ! 0) \<noteq> (0, 0, 0)"
    by simp
  have val: "tf_scatter (\<lambda>_. 0) (\<lambda>_. 1 / 2) (\<lambda>_. 0) [(0, 0, 1)] ! 0 = (0, 0, - 1)"
    by (simp add: nth_tf_scatter nth_tf_sample_normal_vectors)
  from scatter_unit_norm [OF h cr] val show ?thesis
    by simp
qed

end
